theory Spec2Isabelle
  imports Complex_Main "HOL-Library.Sublist"
begin

section \<open>Python values\<close>

text \<open>
  A Python \<open>str\<close> is a sequence of Unicode code points.  Literals of the source that
  are ASCII are written with \<open>ascii\<close>; the Korean literals are given by their code
  points.
\<close>

type_synonym pystr = "nat list"

definition ascii :: "string \<Rightarrow> pystr" where
  "ascii s = map of_char s"

text \<open>
  \<open>datetime\<close> values are instants counted in microseconds, \<open>timedelta\<close> values are
  differences of instants.
\<close>

type_synonym datetime = int

definition timedelta_minutes :: "int \<Rightarrow> int" where
  "timedelta_minutes m = m * 60 * 1000000"

text \<open>Exceptions, as far as the modelled code tells them apart.\<close>

datatype py_exn =
    KeyError pystr
  | TypeError
  | AttributeError
  | IndexError
  | UnboundLocalError
  | JSONDecodeError
  | RaisedBy pystr

text \<open>
  Values decoded from JSON (a completion-service response, the output of a
  structured output parser): \<open>None\<close>, booleans, numbers, strings, lists and
  dictionaries with string keys.
\<close>

datatype json =
    JNull
  | JBool bool
  | JNum int
  | JStr pystr
  | JArr "json list"
  | JObj "(pystr \<times> json) list"

text \<open>Truth value of a decoded value, as \<open>if x:\<close> and \<open>x and y\<close> take it.\<close>

fun truthy :: "json \<Rightarrow> bool" where
  "truthy JNull = False"
| "truthy (JBool b) = b"
| "truthy (JNum n) = (n \<noteq> 0)"
| "truthy (JStr s) = (s \<noteq> [])"
| "truthy (JArr xs) = (xs \<noteq> [])"
| "truthy (JObj d) = (d \<noteq> [])"

text \<open>\<open>d.get(key, default)\<close> on a dictionary.\<close>

definition dict_get :: "('k \<times> 'v) list \<Rightarrow> 'k \<Rightarrow> 'v \<Rightarrow> 'v" where
  "dict_get d k dflt = (case map_of d k of None \<Rightarrow> dflt | Some v \<Rightarrow> v)"

text \<open>\<open>needle in haystack\<close> on strings: a contiguous occurrence.\<close>

fun str_startswith :: "pystr \<Rightarrow> pystr \<Rightarrow> bool" where
  "str_startswith [] s = True"
| "str_startswith (p # ps) [] = False"
| "str_startswith (p # ps) (c # cs) = (p = c \<and> str_startswith ps cs)"

fun str_contains :: "pystr \<Rightarrow> pystr \<Rightarrow> bool" where
  "str_contains needle [] = (needle = [])"
| "str_contains needle (c # cs) =
     (str_startswith needle (c # cs) \<or> str_contains needle cs)"

text \<open>
  The Unicode character database is not part of the repository.  It is a parameter:
  for the code points from 128 on it says which are white space (\<open>str.strip\<close>),
  which are word characters (\<open>\w\<close>, hence \<open>\b\<close>), what \<open>str.lower\<close> maps them to, and
  which character they count as under \<open>re.IGNORECASE\<close>.  Below 128 the answers are
  fixed here.
\<close>

record unicode_db =
  u_isspace :: "nat \<Rightarrow> bool"
  u_isword :: "nat \<Rightarrow> bool"
  u_lower :: "nat \<Rightarrow> pystr"
  u_ignorecase :: "nat \<Rightarrow> nat"

definition py_isspace :: "unicode_db \<Rightarrow> nat \<Rightarrow> bool" where
  "py_isspace U c =
     (if c < 128 then (9 \<le> c \<and> c \<le> 13) \<or> (28 \<le> c \<and> c \<le> 32) else u_isspace U c)"

definition py_strip :: "unicode_db \<Rightarrow> pystr \<Rightarrow> pystr" where
  "py_strip U s = rev (dropWhile (py_isspace U) (rev (dropWhile (py_isspace U) s)))"

definition lower_char :: "unicode_db \<Rightarrow> nat \<Rightarrow> pystr" where
  "lower_char U c =
     (if 65 \<le> c \<and> c \<le> 90 then [c + 32] else if c < 128 then [c] else u_lower U c)"

definition py_lower :: "unicode_db \<Rightarrow> pystr \<Rightarrow> pystr" where
  "py_lower U s = concat (map (lower_char U) s)"

definition is_word :: "unicode_db \<Rightarrow> nat \<Rightarrow> bool" where
  "is_word U c =
     (if c < 128 then
        (48 \<le> c \<and> c \<le> 57) \<or> (65 \<le> c \<and> c \<le> 90) \<or> (97 \<le> c \<and> c \<le> 122) \<or> c = 95
      else u_isword U c)"

definition ignorecase_char :: "unicode_db \<Rightarrow> nat \<Rightarrow> nat" where
  "ignorecase_char U c =
     (if 65 \<le> c \<and> c \<le> 90 then c + 32 else if c < 128 then c else u_ignorecase U c)"

text \<open>\<open>s.split("\n")\<close>.\<close>

fun split_lines :: "pystr \<Rightarrow> pystr list" where
  "split_lines [] = [[]]"
| "split_lines (c # cs) =
     (if c = 10 then [] # split_lines cs
      else case split_lines cs of
             [] \<Rightarrow> [[c]]
           | l # ls \<Rightarrow> (c # l) # ls)"

section \<open>Conversation state (\<open>graph/state.py\<close>)\<close>

text \<open>
  A quiz question as \<open>parse_single_quiz\<close> builds it: \<open>id\<close>, \<open>question\<close>,
  \<open>options\<close>, \<open>correct_answer\<close> (\<open>number\<close>, \<open>company\<close>, \<open>symbol\<close>) and
  \<open>background\<close>.
\<close>

record correct_answer =
  number :: pystr
  company :: pystr
  symbol :: pystr

record quiz_data =
  quiz_id :: int
  question :: pystr
  options :: "(pystr \<times> pystr) list"
  correct :: correct_answer
  background :: pystr

text \<open>
  The field \<open>quiz_session_start_time\<close> is a string.  The code only asks whether it is
  empty and what \<open>datetime.fromisoformat\<close> makes of it, so the strings are split into
  the empty one, the ISO rendering of an instant, and those on which parsing (or the
  subtraction that follows) raises.
\<close>

datatype start_time = NoStartTime | IsoTime datetime | Unparseable pystr

text \<open>The record written by the self-clarification path.\<close>

record clarification =
  original_query :: pystr
  clarified_query :: pystr
  start_date :: pystr
  end_date :: pystr
  market_scope :: pystr
  primary_criteria :: pystr
  secondary_criteria :: pystr

text \<open>What a quiz handler stores in \<open>state["data"]["results"][0]\<close>.\<close>

datatype quiz_result =
    QuizGeneration pystr quiz_data
  | AnswerChecking pystr
  | WrongAnswerWithHint pystr pystr pystr
  | HintProvided pystr
  | SessionCompleted
  | QuizErrorResult pystr

text \<open>
  \<open>state["data"]\<close>: empty, a retrieval payload of one of the data nodes (opaque here,
  tagged by its source), or a quiz payload with its \<open>query_type\<close>.
\<close>

datatype agent_data =
    NoData
  | Retrieval pystr
  | QuizData quiz_result pystr

record StockAgentState =
  api_key :: pystr
  data :: agent_data
  context_map :: "(pystr \<times> json) list"
  query :: pystr
  response :: pystr
  query_category :: pystr
  clarification_info :: "clarification option"
  request_id :: pystr
  quiz_session_active :: bool
  quiz_current_question :: "quiz_data option"
  quiz_session_start_time :: start_time
  quiz_hint_used :: bool
  quiz_session_phase :: pystr
  quiz_session_id :: pystr

definition default_stock_agent_state :: StockAgentState where
  "default_stock_agent_state =
     \<lparr> api_key = [], data = NoData, context_map = [], query = [], response = [],
       query_category = [], clarification_info = None, request_id = [],
       quiz_session_active = False, quiz_current_question = None,
       quiz_session_start_time = NoStartTime, quiz_hint_used = False,
       quiz_session_phase = ascii ''inactive'', quiz_session_id = [] \<rparr>"

section \<open>Quiz session manager (\<open>tools/quiz/session_manager.py\<close>)\<close>

datatype QuizSessionPhase = INACTIVE | ASKING | PROCESSING | COMPLETED

fun phase_value :: "QuizSessionPhase \<Rightarrow> pystr" where
  "phase_value INACTIVE = ascii ''inactive''"
| "phase_value ASKING = ascii ''asking''"
| "phase_value PROCESSING = ascii ''processing''"
| "phase_value COMPLETED = ascii ''completed''"

definition SESSION_TIMEOUT_MINUTES :: int where
  "SESSION_TIMEOUT_MINUTES = 10"

definition is_session_active :: "StockAgentState \<Rightarrow> bool" where
  "is_session_active state = quiz_session_active state"

text \<open>
  \<open>update_session_phase\<close>: skipped when no session is active, otherwise the phase
  field is overwritten with the requested phase.
\<close>

definition update_session_phase ::
  "StockAgentState \<Rightarrow> QuizSessionPhase \<Rightarrow> StockAgentState" where
  "update_session_phase state new_phase =
     (if \<not> is_session_active state then state
      else state\<lparr>quiz_session_phase := phase_value new_phase\<rparr>)"

text \<open>
  \<open>update_session_phase\<close> writes one line to the log when it changes the phase:
  the old phase and the new one.  \<open>update_session_phase_logged\<close> is the function
  together with the lines it writes.
\<close>

type_synonym phase_change = "pystr \<times> pystr"

definition update_session_phase_logged ::
  "StockAgentState \<Rightarrow> QuizSessionPhase \<Rightarrow> StockAgentState \<times> phase_change list" where
  "update_session_phase_logged state new_phase =
     (update_session_phase state new_phase,
      if \<not> is_session_active state then []
      else [(quiz_session_phase state, phase_value new_phase)])"

text \<open>
  \<open>validate_session_transition\<close>: the table \<open>valid_transitions\<close> is a dictionary
  from phase strings to lists of phase strings; a phase that is no key yields the
  empty list.
\<close>

definition valid_transitions :: "(pystr \<times> pystr list) list" where
  "valid_transitions =
     [(phase_value INACTIVE, [phase_value ASKING]),
      (phase_value ASKING, [phase_value PROCESSING, phase_value COMPLETED]),
      (phase_value PROCESSING, [phase_value COMPLETED]),
      (phase_value COMPLETED, [phase_value INACTIVE])]"

definition validate_session_transition ::
  "StockAgentState \<Rightarrow> QuizSessionPhase \<Rightarrow> bool" where
  "validate_session_transition state target_phase =
     (let current_phase = quiz_session_phase state;
          allowed_targets =
            (case map_of valid_transitions current_phase of
               None \<Rightarrow> [] | Some ts \<Rightarrow> ts)
      in phase_value target_phase \<in> set allowed_targets)"

text \<open>
  The history row that \<open>QuizDatabase.save_quiz_result\<close> is asked to insert.
\<close>

record save_args =
  h_request_id :: pystr
  h_quiz_id :: int
  h_quiz_question :: pystr
  h_correct_answer :: pystr
  h_user_answer :: pystr
  h_is_correct :: bool
  h_hint_used :: bool
  h_reward_stock :: pystr
  h_reward_amount :: rat

text \<open>
  \<open>reward_info\<close> is a dictionary read with \<open>.get("stock", "")\<close> and
  \<open>.get("amount", 0)\<close>; a missing key is \<open>None\<close> here.
\<close>

record reward_info =
  stock :: "pystr option"
  amount :: "rat option"

definition key_or :: "'a option \<Rightarrow> 'a \<Rightarrow> 'a" where
  "key_or v dflt = (case v of None \<Rightarrow> dflt | Some x \<Rightarrow> x)"

text \<open>
  \<open>end_session\<close>.  The storage collaborator \<open>save\<close> stands for
  \<open>QuizDatabase.save_quiz_result\<close>: on the storage \<open>db\<close> it returns \<open>True\<close>,
  \<open>False\<close> or raises, and leaves a new storage.  The inner \<open>try\<close> discards both
  the returned flag and a raised exception; the reset that follows is unconditional.
\<close>

definition end_session ::
  "(save_args \<Rightarrow> 'db \<Rightarrow> (py_exn + bool) \<times> 'db) \<Rightarrow> StockAgentState \<Rightarrow> bool \<Rightarrow> pystr \<Rightarrow>
   bool \<Rightarrow> pystr \<Rightarrow> reward_info option \<Rightarrow> 'db \<Rightarrow> StockAgentState \<times> 'db" where
  "end_session save state save_to_db user_answer is_correct req_id reward db =
     (let current_quiz = quiz_current_question state;
          db' =
            (case current_quiz of
               None \<Rightarrow> db
             | Some q \<Rightarrow>
                 if save_to_db then
                   (let reward' =
                          (case reward of
                             None \<Rightarrow> \<lparr>stock = Some [], amount = Some 0\<rparr>
                           | Some r \<Rightarrow> r)
                    in snd (save
                         \<lparr> h_request_id = req_id,
                           h_quiz_id = quiz_id q,
                           h_quiz_question = question q,
                           h_correct_answer = company (correct q),
                           h_user_answer = user_answer,
                           h_is_correct = is_correct,
                           h_hint_used = quiz_hint_used state,
                           h_reward_stock = key_or (stock reward') [],
                           h_reward_amount = key_or (amount reward') 0 \<rparr> db))
                 else db)
      in (state\<lparr> quiz_session_active := False,
                 quiz_session_id := [],
                 quiz_session_start_time := NoStartTime,
                 quiz_current_question := None,
                 quiz_hint_used := False,
                 quiz_session_phase := phase_value INACTIVE \<rparr>, db'))"

text \<open>The call \<open>end_session(state)\<close> with every default argument.\<close>

definition end_session_default ::
  "(save_args \<Rightarrow> 'db \<Rightarrow> (py_exn + bool) \<times> 'db) \<Rightarrow> StockAgentState \<Rightarrow> 'db \<Rightarrow>
   StockAgentState \<times> 'db" where
  "end_session_default save state db = end_session save state False [] False [] None db"

text \<open>
  \<open>is_session_expired\<close> at the instant \<open>now\<close>: an inactive session is not expired,
  an empty start time is, a start time that cannot be used raises inside the
  \<open>try\<close> and counts as expired, otherwise the elapsed time is compared strictly
  with ten minutes.
\<close>

definition is_session_expired :: "datetime \<Rightarrow> StockAgentState \<Rightarrow> bool" where
  "is_session_expired now state =
     (if \<not> is_session_active state then False
      else case quiz_session_start_time state of
             NoStartTime \<Rightarrow> True
           | Unparseable s \<Rightarrow> True
           | IsoTime t \<Rightarrow> now - t > timedelta_minutes SESSION_TIMEOUT_MINUTES)"

definition cleanup_expired_session ::
  "(save_args \<Rightarrow> 'db \<Rightarrow> (py_exn + bool) \<times> 'db) \<Rightarrow> datetime \<Rightarrow> StockAgentState \<Rightarrow> 'db \<Rightarrow>
   StockAgentState \<times> 'db" where
  "cleanup_expired_session save now state db =
     (if is_session_expired now state then end_session_default save state db
      else (state, db))"

text \<open>
  \<open>start_new_session\<close>: an active session is ended first; \<open>session_id\<close> is the token
  drawn by \<open>QuizDatabase.generate_session_id\<close>.
\<close>

definition start_new_session ::
  "(save_args \<Rightarrow> 'db \<Rightarrow> (py_exn + bool) \<times> 'db) \<Rightarrow> pystr \<Rightarrow> datetime \<Rightarrow> StockAgentState \<Rightarrow>
   quiz_data \<Rightarrow> 'db \<Rightarrow> StockAgentState \<times> 'db" where
  "start_new_session save session_id now state q db =
     (let (state1, db1) =
            (if quiz_session_active state then end_session_default save state db
             else (state, db))
      in (state1\<lparr> quiz_session_active := True,
                  quiz_session_id := session_id,
                  quiz_session_start_time := IsoTime now,
                  quiz_current_question := Some q,
                  quiz_hint_used := False,
                  quiz_session_phase := phase_value ASKING \<rparr>, db1))"


text \<open>
  The allow-list as the specification words it: \<open>inactive \<rightarrow> asking\<close>,
  \<open>asking \<rightarrow> processing\<close>, \<open>asking \<rightarrow> completed\<close>, \<open>processing \<rightarrow> completed\<close>,
  \<open>completed \<rightarrow> inactive\<close>.
\<close>

definition spec_allow_list :: "(QuizSessionPhase \<times> QuizSessionPhase) set" where
  "spec_allow_list =
     {(INACTIVE, ASKING), (ASKING, PROCESSING), (ASKING, COMPLETED),
      (PROCESSING, COMPLETED), (COMPLETED, INACTIVE)}"


section \<open>Session store (\<open>api_server.py\<close>)\<close>

text \<open>
  A dictionary keeps its keys in insertion order: assigning to a key that is
  present replaces the value in place, a new key goes to the end,
  \<open>pop(key, None)\<close> removes the key if it is there.
\<close>

fun dict_setitem :: "'k \<Rightarrow> 'v \<Rightarrow> ('k \<times> 'v) list \<Rightarrow> ('k \<times> 'v) list" where
  "dict_setitem k v [] = [(k, v)]"
| "dict_setitem k v (p # d) = (if fst p = k then (k, v) # d else p # dict_setitem k v d)"

definition dict_pop :: "'k \<Rightarrow> ('k \<times> 'v) list \<Rightarrow> ('k \<times> 'v) list" where
  "dict_pop k d = filter (\<lambda>p. fst p \<noteq> k) d"

definition dict_in :: "'k \<Rightarrow> ('k \<times> 'v) list \<Rightarrow> bool" where
  "dict_in k d = (k \<in> set (map fst d))"

text \<open>The two module-level dictionaries.\<close>

record session_globals =
  session_store :: "(pystr \<times> StockAgentState) list"
  session_timestamps :: "(pystr \<times> datetime) list"

definition API_SESSION_TIMEOUT_MINUTES :: int where
  "API_SESSION_TIMEOUT_MINUTES = 10"

definition MAX_SESSIONS :: nat where
  "MAX_SESSIONS = 5"

definition pop_session :: "pystr \<Rightarrow> session_globals \<Rightarrow> session_globals" where
  "pop_session session_id g =
     g\<lparr> session_store := dict_pop session_id (session_store g),
        session_timestamps := dict_pop session_id (session_timestamps g) \<rparr>"

text \<open>
  The test of the first loop of \<open>cleanup_expired_sessions\<close> on one item of
  \<open>session_timestamps\<close>: idle for more than ten minutes, or else stored with an
  active quiz session that \<open>is_session_expired\<close> reports expired.  All clock
  readings of one sweep are taken to be the same instant \<open>now\<close>.
\<close>

definition session_is_expired ::
  "datetime \<Rightarrow> session_globals \<Rightarrow> pystr \<times> datetime \<Rightarrow> bool" where
  "session_is_expired now g item =
     (if now - snd item > timedelta_minutes API_SESSION_TIMEOUT_MINUTES then True
      else case map_of (session_store g) (fst item) of
             None \<Rightarrow> False
           | Some state \<Rightarrow>
               if quiz_session_active state then is_session_expired now state else False)"

definition expired_sessions :: "datetime \<Rightarrow> session_globals \<Rightarrow> pystr list" where
  "expired_sessions now g =
     map fst (filter (session_is_expired now g) (session_timestamps g))"

text \<open>
  \<open>cleanup_expired_sessions\<close>: the expired sessions are popped; if the store still
  holds more than \<open>MAX_SESSIONS\<close> records, the items of \<open>session_timestamps\<close> are
  sorted by timestamp (\<open>sorted\<close> is stable, as \<open>sort_key\<close> is) and the first
  \<open>len(session_store) - MAX_SESSIONS\<close> of them are popped.
\<close>

definition cleanup_expired_sessions :: "datetime \<Rightarrow> session_globals \<Rightarrow> session_globals" where
  "cleanup_expired_sessions now g =
     (let g1 = fold pop_session (expired_sessions now g) g
      in if length (session_store g1) > MAX_SESSIONS then
           (let sorted_sessions = sort_key snd (session_timestamps g1);
                sessions_to_remove =
                  take (length (session_store g1) - MAX_SESSIONS) sorted_sessions
            in fold pop_session (map fst sessions_to_remove) g1)
         else g1)"

text \<open>
  \<open>get_session_state\<close>: the sweep runs first; a known identifier has its timestamp
  refreshed, an unknown non-empty one is inserted with a fresh default state, an
  empty one gets a default state that is not stored.
\<close>

definition get_session_state ::
  "datetime \<Rightarrow> pystr \<Rightarrow> session_globals \<Rightarrow> StockAgentState \<times> session_globals" where
  "get_session_state now req_id g =
     (let g1 = cleanup_expired_sessions now g
      in case (if req_id \<noteq> [] then map_of (session_store g1) req_id else None) of
           Some state \<Rightarrow>
             (state, g1\<lparr>session_timestamps := dict_setitem req_id now (session_timestamps g1)\<rparr>)
         | None \<Rightarrow>
             (let state = default_stock_agent_state
              in if req_id \<noteq> [] then
                   (state,
                    g1\<lparr> session_store := dict_setitem req_id state (session_store g1),
                        session_timestamps := dict_setitem req_id now (session_timestamps g1) \<rparr>)
                 else (state, g1)))"


definition empty_globals :: session_globals where
  "empty_globals = \<lparr> session_store = [], session_timestamps = [] \<rparr>"

text \<open>Instants given in seconds, for the concrete scenarios below.\<close>

definition seconds :: "int \<Rightarrow> datetime" where
  "seconds n = n * 1000000"

text \<open>
  Six distinct identifiers ask for their session one after the other, one second
  apart, starting from the empty store.
\<close>

definition six_sessions :: session_globals where
  "six_sessions =
     snd (get_session_state (seconds 5) (ascii ''s6'')
     (snd (get_session_state (seconds 4) (ascii ''s5'')
     (snd (get_session_state (seconds 3) (ascii ''s4'')
     (snd (get_session_state (seconds 2) (ascii ''s3'')
     (snd (get_session_state (seconds 1) (ascii ''s2'')
     (snd (get_session_state (seconds 0) (ascii ''s1'') empty_globals)))))))))))"

text \<open>
  A store at the instant 660 s: \<open>S1\<close> was last active at 0 s (idle for eleven
  minutes); \<open>S2\<close> was active one minute ago but carries an active quiz session
  started at 0 s; \<open>S3\<close> was last active at 60 s (idle for exactly ten minutes).
\<close>

definition quiz_started_at_0 :: StockAgentState where
  "quiz_started_at_0 =
     default_stock_agent_state
       \<lparr> quiz_session_active := True,
         quiz_session_start_time := IsoTime (seconds 0),
         quiz_session_phase := ascii ''asking'' \<rparr>"

definition sweep_demo :: session_globals where
  "sweep_demo =
     \<lparr> session_store =
         [(ascii ''S1'', default_stock_agent_state),
          (ascii ''S2'', quiz_started_at_0),
          (ascii ''S3'', default_stock_agent_state)],
       session_timestamps =
         [(ascii ''S1'', seconds 0), (ascii ''S2'', seconds 600), (ascii ''S3'', seconds 60)] \<rparr>"

section \<open>Query classification (\<open>nodes/category.py\<close>, \<open>nodes/classify_query.py\<close>)\<close>

datatype QueryCategory =
  FETCH_STOCK_DATA | CONDITIONAL_STOCK_DATA | SIGNAL_STOCK_DATA | AMBIGUOUS_QUERY

fun category_value :: "QueryCategory \<Rightarrow> pystr" where
  "category_value FETCH_STOCK_DATA = ascii ''fetch_stock_data''"
| "category_value CONDITIONAL_STOCK_DATA = ascii ''conditional_stock_data''"
| "category_value SIGNAL_STOCK_DATA = ascii ''signal_stock_data''"
| "category_value AMBIGUOUS_QUERY = ascii ''ambiguous_query''"

text \<open>\<open>QueryCategory._value2member_map_.keys()\<close>, in definition order.\<close>

definition category_keys :: "pystr list" where
  "category_keys =
     map category_value
       [FETCH_STOCK_DATA, CONDITIONAL_STOCK_DATA, SIGNAL_STOCK_DATA, AMBIGUOUS_QUERY]"

text \<open>
  \<open>re.search(r"\b(c1|c2|c3|c4)\b", text, re.IGNORECASE)\<close> for the four category
  names.  \<open>match_category_here\<close> tries the alternatives in order at the head of
  \<open>text\<close>: the name must match character by character up to case, and a word
  boundary must follow the match.  \<open>search_category\<close> moves through the text from
  left to right; \<open>prev\<close> tells whether the character before the current position
  is a word character, so that a match may only start at a word boundary.  The
  result is group 1, the matched piece of the text.
\<close>

fun ignorecase_prefix :: "unicode_db \<Rightarrow> pystr \<Rightarrow> pystr \<Rightarrow> bool" where
  "ignorecase_prefix U [] text = True"
| "ignorecase_prefix U (p # ps) [] = False"
| "ignorecase_prefix U (p # ps) (c # cs) =
     (ignorecase_char U c = p \<and> ignorecase_prefix U ps cs)"

definition boundary_after :: "unicode_db \<Rightarrow> pystr \<Rightarrow> pystr \<Rightarrow> bool" where
  "boundary_after U matched rest =
     ((matched \<noteq> [] \<and> is_word U (last matched)) \<noteq> (rest \<noteq> [] \<and> is_word U (hd rest)))"

fun match_category_here :: "unicode_db \<Rightarrow> pystr list \<Rightarrow> pystr \<Rightarrow> pystr option" where
  "match_category_here U [] text = None"
| "match_category_here U (cat # cats) text =
     (if ignorecase_prefix U cat text
         \<and> boundary_after U (take (length cat) text) (drop (length cat) text)
      then Some (take (length cat) text)
      else match_category_here U cats text)"

fun search_category :: "unicode_db \<Rightarrow> bool \<Rightarrow> pystr \<Rightarrow> pystr option" where
  "search_category U prev [] = None"
| "search_category U prev (c # cs) =
     (if prev \<noteq> is_word U c then
        (case match_category_here U category_keys (c # cs) of
           Some m \<Rightarrow> Some m
         | None \<Rightarrow> search_category U (is_word U c) cs)
      else search_category U (is_word U c) cs)"

definition re_search_category :: "unicode_db \<Rightarrow> pystr \<Rightarrow> pystr option" where
  "re_search_category U text = search_category U False text"

text \<open>
  The loop over the lines of the response: a stripped line that contains some
  category name (both lowered) is searched again with the pattern.
\<close>

fun search_lines :: "unicode_db \<Rightarrow> pystr list \<Rightarrow> pystr option" where
  "search_lines U [] = None"
| "search_lines U (line # lines) =
     (let line' = py_strip U line
      in if list_ex (\<lambda>cat. str_contains (py_lower U cat) (py_lower U line')) category_keys
         then (case re_search_category U line' of
                 Some m \<Rightarrow> Some m
               | None \<Rightarrow> search_lines U lines)
         else search_lines U lines)"

definition extract_category_from_response :: "unicode_db \<Rightarrow> pystr \<Rightarrow> pystr" where
  "extract_category_from_response U resp =
     (if resp = [] then []
      else
        (let resp' = py_strip U resp
         in case re_search_category U resp' of
              Some m \<Rightarrow> m
            | None \<Rightarrow>
                (case search_lines U (split_lines resp') of
                   Some m \<Rightarrow> m
                 | None \<Rightarrow>
                     (case find (\<lambda>category.
                                   str_contains (py_lower U category) (py_lower U resp'))
                             category_keys of
                        Some category \<Rightarrow> category
                      | None \<Rightarrow> []))))"

text \<open>The trigger phrase of \<open>classify_query\<close> (four Hangul syllables).\<close>

definition quiz_trigger :: pystr where
  "quiz_trigger = [53300, 51592, 46020, 51204]"

text \<open>
  \<open>classify_query\<close>.  The two classification chains are the parameter \<open>chain\<close>:
  \<open>chain clarified query context\<close> is what the chain returns (a string) or raises;
  \<open>clarified\<close> selects \<open>clarified_classify_query_chain\<close>.
\<close>

definition classify_query ::
  "unicode_db \<Rightarrow> (bool \<Rightarrow> pystr \<Rightarrow> (pystr \<times> json) list \<Rightarrow> py_exn + pystr) \<Rightarrow>
   StockAgentState \<Rightarrow> py_exn + StockAgentState" where
  "classify_query U chain state =
     (if quiz_session_active state then
        Inr (state\<lparr>query_category := ascii ''quiz_stock_data''\<rparr>)
      else if str_contains quiz_trigger (query state) then
        Inr (state\<lparr>query_category := ascii ''quiz_stock_data''\<rparr>)
      else if clarification_info state \<noteq> None then
        (case chain True (query state) (context_map state) of
           Inl e \<Rightarrow> Inl e
         | Inr category \<Rightarrow>
             (let category_name = extract_category_from_response U category;
                  valid_categories =
                    [category_value FETCH_STOCK_DATA, category_value CONDITIONAL_STOCK_DATA,
                     category_value SIGNAL_STOCK_DATA];
                  category_name' =
                    (if category_name \<notin> set valid_categories
                     then category_value FETCH_STOCK_DATA else category_name)
              in Inr (state\<lparr>query_category := category_name'\<rparr>)))
      else
        (case chain False (query state) (context_map state) of
           Inl e \<Rightarrow> Inl e
         | Inr category \<Rightarrow>
             (let category_name = extract_category_from_response U category;
                  valid_categories =
                    [category_value FETCH_STOCK_DATA, category_value CONDITIONAL_STOCK_DATA,
                     category_value SIGNAL_STOCK_DATA, category_value AMBIGUOUS_QUERY];
                  category_name' =
                    (if category_name \<notin> set valid_categories
                     then category_value AMBIGUOUS_QUERY else category_name)
              in Inr (state\<lparr>query_category := category_name'\<rparr>))))"

definition classify_query_with_path :: "StockAgentState \<Rightarrow> pystr" where
  "classify_query_with_path state = query_category state"

text \<open>A character database that knows nothing beyond ASCII, for concrete runs.\<close>

definition ascii_only :: unicode_db where
  "ascii_only =
     \<lparr> u_isspace = (\<lambda>c. False), u_isword = (\<lambda>c. False), u_lower = (\<lambda>c. [c]),
       u_ignorecase = (\<lambda>c. c) \<rparr>"

section \<open>Clarification (\<open>nodes/ambiguous_query.py\<close>)\<close>

text \<open>
  The model-assisted steps are parameters: \<open>llm_information_analysis\<close> is the call
  and the parsing inside the \<open>try\<close> of \<open>analyze_information_with_llm\<close> (a parsed
  dictionary, or an exception); \<open>llm_stock_name_found\<close> and \<open>query_date_found\<close> are
  the two truth values of its fallback; \<open>generate_clarification_question\<close> returns
  the follow-up question (it catches its own failures); \<open>clarify_vague_question\<close>
  returns the parsed rewriting or raises.
\<close>

record clarify_env =
  llm_information_analysis :: "pystr \<Rightarrow> (pystr \<times> json) list \<Rightarrow> py_exn + (pystr \<times> json) list"
  llm_stock_name_found :: "pystr \<Rightarrow> bool"
  query_date_found :: "pystr \<Rightarrow> bool"
  generate_clarification_question :: "pystr \<Rightarrow> (pystr \<times> json) list \<Rightarrow> pystr"
  clarify_vague_question :: "pystr \<Rightarrow> py_exn + (pystr \<times> pystr) list"

definition analyze_information_with_llm ::
  "clarify_env \<Rightarrow> pystr \<Rightarrow> (pystr \<times> json) list \<Rightarrow> (pystr \<times> json) list" where
  "analyze_information_with_llm E q ctx =
     (case llm_information_analysis E q ctx of
        Inr parsed_result \<Rightarrow> parsed_result
      | Inl e \<Rightarrow>
          [(ascii ''has_stock_name'', JBool (llm_stock_name_found E q)),
           (ascii ''has_specific_date'', JBool (query_date_found E q)),
           (ascii ''has_relative_time'', JBool False),
           (ascii ''has_metrics'', JBool False),
           (ascii ''has_conditions'', JBool False),
           (ascii ''missing_information_type'', JStr (ascii ''NONE'')),
           (ascii ''information_completeness'', JStr (ascii ''AMBIGUOUS''))])"

text \<open>
  The three entries of the analysis dictionary that \<open>analyze_ambiguity_type\<close> reads,
  each with the default of its \<open>.get\<close>.
\<close>

definition completeness_of :: "(pystr \<times> json) list \<Rightarrow> json" where
  "completeness_of analysis =
     dict_get analysis (ascii ''information_completeness'') (JStr (ascii ''AMBIGUOUS''))"

definition missing_type_of :: "(pystr \<times> json) list \<Rightarrow> json" where
  "missing_type_of analysis =
     dict_get analysis (ascii ''missing_information_type'') (JStr (ascii ''NONE''))"

definition has_relative_time_of :: "(pystr \<times> json) list \<Rightarrow> json" where
  "has_relative_time_of analysis = dict_get analysis (ascii ''has_relative_time'') (JBool False)"

text \<open>The decision on an analysis dictionary (the body of \<open>analyze_ambiguity_type\<close>).\<close>

definition ambiguity_decision :: "(pystr \<times> json) list \<Rightarrow> pystr" where
  "ambiguity_decision analysis =
     (let completeness = completeness_of analysis;
          missing_type = missing_type_of analysis
      in if completeness = JStr (ascii ''COMPLETE'') then ascii ''SELF_CLARIFY''
         else if completeness = JStr (ascii ''PARTIAL'') then
           (let has_relative_time = has_relative_time_of analysis
            in if missing_type = JStr (ascii ''SPECIFIC_DATE'') \<and> truthy has_relative_time
               then ascii ''SELF_CLARIFY''
               else if missing_type \<in> set [JStr (ascii ''STOCK_NAME''),
                                      JStr (ascii ''SPECIFIC_DATE''),
                                      JStr (ascii ''TIME_PERIOD'')]
               then ascii ''ASK_USER''
               else ascii ''SELF_CLARIFY'')
         else ascii ''SELF_CLARIFY'')"

definition analyze_ambiguity_type ::
  "clarify_env \<Rightarrow> pystr \<Rightarrow> (pystr \<times> json) list \<Rightarrow> pystr" where
  "analyze_ambiguity_type E q ctx = ambiguity_decision (analyze_information_with_llm E q ctx)"

text \<open>The two branches of \<open>clarify_question_node\<close>.\<close>

definition ask_user_branch :: "clarify_env \<Rightarrow> StockAgentState \<Rightarrow> StockAgentState" where
  "ask_user_branch E state =
     state\<lparr> response := generate_clarification_question E (query state) (context_map state),
            query_category := ascii ''ask_clarification'' \<rparr>"

definition self_clarify_branch ::
  "clarify_env \<Rightarrow> StockAgentState \<Rightarrow> py_exn + StockAgentState" where
  "self_clarify_branch E state =
     (let q = query state
      in case clarify_vague_question E q of
           Inl e \<Rightarrow> Inl e
         | Inr clarified \<Rightarrow>
             (let specific_question = dict_get clarified (ascii ''specific_question'') q
              in Inr (state
                   \<lparr> clarification_info := Some
                       \<lparr> original_query = q,
                         clarified_query = specific_question,
                         start_date = dict_get clarified (ascii ''start_date'') [],
                         end_date = dict_get clarified (ascii ''end_date'') [],
                         market_scope = dict_get clarified (ascii ''market_scope'') [],
                         primary_criteria = dict_get clarified (ascii ''primary_criteria'') [],
                         secondary_criteria =
                           dict_get clarified (ascii ''secondary_criteria'') [] \<rparr>,
                     query := specific_question \<rparr>)))"

definition clarify_question_node ::
  "clarify_env \<Rightarrow> StockAgentState \<Rightarrow> py_exn + StockAgentState" where
  "clarify_question_node E state =
     (let q = query state; ctx = context_map state
      in if q = [] then Inr state
         else
           (let ambiguity_type = analyze_ambiguity_type E q ctx
            in if ambiguity_type = ascii ''ASK_USER'' then Inr (ask_user_branch E state)
               else self_clarify_branch E state))"

definition ASK_CLARIFICATION :: pystr where
  "ASK_CLARIFICATION = ascii ''ask_clarification''"

definition CLASSIFY_QUERY :: pystr where
  "CLASSIFY_QUERY = ascii ''classify_query''"

definition ambiguous_query_with_path :: "StockAgentState \<Rightarrow> pystr" where
  "ambiguous_query_with_path state =
     (if query_category state = ascii ''ask_clarification'' then ASK_CLARIFICATION
      else CLASSIFY_QUERY)"

section \<open>Tool-calling protocol (\<open>graph/clova_function_calling.py\<close>)\<close>

text \<open>
  A step that may raise returns \<open>Inl\<close> of the exception; \<open>and_then\<close> runs the next
  step on a returned value and passes an exception on.
\<close>

definition and_then :: "py_exn + 'a \<Rightarrow> ('a \<Rightarrow> py_exn + 'b) \<Rightarrow> py_exn + 'b" where
  "and_then m f = (case m of Inl e \<Rightarrow> Inl e | Inr x \<Rightarrow> f x)"

text \<open>
  The operations the protocol applies to decoded values, with their behaviour on
  every kind of value: \<open>key in x\<close>, \<open>x[key]\<close>, \<open>x[0]\<close>, \<open>x.get(key, default)\<close> and
  iteration.
\<close>

definition py_in :: "pystr \<Rightarrow> json \<Rightarrow> py_exn + bool" where
  "py_in key x =
     (case x of
        JObj d \<Rightarrow> Inr (dict_in key d)
      | JArr xs \<Rightarrow> Inr (JStr key \<in> set xs)
      | JStr s \<Rightarrow> Inr (str_contains key s)
      | _ \<Rightarrow> Inl TypeError)"

definition py_getitem :: "json \<Rightarrow> pystr \<Rightarrow> py_exn + json" where
  "py_getitem x key =
     (case x of
        JObj d \<Rightarrow> (case map_of d key of Some v \<Rightarrow> Inr v | None \<Rightarrow> Inl (KeyError key))
      | _ \<Rightarrow> Inl TypeError)"

definition py_getitem0 :: "json \<Rightarrow> py_exn + json" where
  "py_getitem0 x =
     (case x of
        JArr xs \<Rightarrow> (case xs of [] \<Rightarrow> Inl IndexError | v # vs \<Rightarrow> Inr v)
      | JStr s \<Rightarrow> (case s of [] \<Rightarrow> Inl IndexError | c # cs \<Rightarrow> Inr (JStr [c]))
      | JObj d \<Rightarrow> Inl (KeyError (ascii ''0''))
      | _ \<Rightarrow> Inl TypeError)"

definition py_get :: "json \<Rightarrow> pystr \<Rightarrow> json \<Rightarrow> py_exn + json" where
  "py_get x key dflt =
     (case x of
        JObj d \<Rightarrow> Inr (dict_get d key dflt)
      | _ \<Rightarrow> Inl AttributeError)"

definition py_iter :: "json \<Rightarrow> py_exn + json list" where
  "py_iter x =
     (case x of
        JArr xs \<Rightarrow> Inr xs
      | JObj d \<Rightarrow> Inr (map (\<lambda>p. JStr (fst p)) d)
      | JStr s \<Rightarrow> Inr (map (\<lambda>c. JStr [c]) s)
      | _ \<Rightarrow> Inl TypeError)"

text \<open>
  What a tool returns is of a type \<open>'v\<close> of its own.  The \<open>result\<close> entry of a tool
  result is either such a value or a text composed by \<open>execute_tool\<close>.
\<close>

datatype 'v payload = ToolValue 'v | Text pystr

record 'v tool_result =
  tool_call_id :: json
  function_name :: json
  arguments :: json
  result :: "'v payload"
  call_success :: bool

text \<open>
  Library functions that are not part of the repository are parameters: the text
  of a value or of an exception in an f-string, \<open>json.loads\<close>, and \<open>json.dumps\<close>,
  which returns on every string and may raise on what a tool returned.
\<close>

record 'v runtime =
  str_of_json :: "json \<Rightarrow> pystr"
  str_of_exn :: "py_exn \<Rightarrow> pystr"
  str_of_value :: "'v \<Rightarrow> pystr"
  json_loads :: "pystr \<Rightarrow> py_exn + json"
  json_dumps_str :: "pystr \<Rightarrow> pystr"
  json_dumps_value :: "'v \<Rightarrow> py_exn + pystr"

definition fstr :: "'v runtime \<Rightarrow> json \<Rightarrow> pystr" where
  "fstr R x = (case x of JStr s \<Rightarrow> s | _ \<Rightarrow> str_of_json R x)"

definition fstr_payload :: "'v runtime \<Rightarrow> 'v payload \<Rightarrow> pystr" where
  "fstr_payload R p = (case p of Text s \<Rightarrow> s | ToolValue v \<Rightarrow> str_of_value R v)"

definition json_dumps :: "'v runtime \<Rightarrow> 'v payload \<Rightarrow> py_exn + pystr" where
  "json_dumps R p =
     (case p of Text s \<Rightarrow> Inr (json_dumps_str R s) | ToolValue v \<Rightarrow> json_dumps_value R v)"

text \<open>
  The registry maps tool names to tools; \<open>tool.invoke(arguments)\<close> returns a value
  or raises.  \<open>function_name in tool_functions\<close> raises on a list or a dictionary
  (unhashable) and is false on any other value that is not a string.
\<close>

type_synonym 'v tool = "json \<Rightarrow> py_exn + 'v"

definition registry_lookup :: "(pystr \<times> 'v tool) list \<Rightarrow> json \<Rightarrow> py_exn + 'v tool option" where
  "registry_lookup tool_functions fname =
     (case fname of
        JStr s \<Rightarrow> Inr (map_of tool_functions s)
      | JArr xs \<Rightarrow> Inl TypeError
      | JObj d \<Rightarrow> Inl TypeError
      | _ \<Rightarrow> Inr None)"

text \<open>The texts of \<open>execute_tool\<close> and \<open>process_function_calling\<close>.\<close>

definition not_found_text :: "'v runtime \<Rightarrow> json \<Rightarrow> pystr" where
  "not_found_text R fname =
     [54632, 49688, 32] @ fstr R fname
       @ [47484, 32, 52286, 51012, 32, 49688, 32, 50630, 49845, 45768, 45796, 46]"

definition exec_error_text :: "'v runtime \<Rightarrow> py_exn \<Rightarrow> pystr" where
  "exec_error_text R e =
     [46020, 44396, 32, 49892, 54665, 32, 51473, 32, 50724, 47448, 58, 32] @ str_of_exn R e"

definition tool_failure_prefix :: pystr where
  "tool_failure_prefix = [46020, 44396, 32, 49892, 54665, 32, 49892, 54056, 58, 32]"

text \<open>
  The \<open>except\<close> clause of \<open>execute_tool\<close>, entered with \<open>function_name\<close> and
  \<open>arguments\<close> bound: it reads \<open>tool_call["id"]\<close> again, which may raise again.
\<close>

definition execute_tool_handler ::
  "'v runtime \<Rightarrow> json \<Rightarrow> json \<Rightarrow> json \<Rightarrow> py_exn \<Rightarrow> py_exn + 'v tool_result" where
  "execute_tool_handler R tool_call fname args e =
     and_then (py_getitem tool_call (ascii ''id''))
       (\<lambda>i. Inr \<lparr> tool_call_id = i, function_name = fname, arguments = args,
                  result = Text (exec_error_text R e), call_success = False \<rparr>)"

text \<open>
  \<open>execute_tool\<close> returns a tool result or raises, and reports the invocations it
  made (name and arguments).  When \<open>tool_call["function"]["name"]\<close> raises, the
  \<open>except\<close> clause fails on the unbound \<open>function_name\<close>; when
  \<open>tool_call["function"]["arguments"]\<close> raises, it fails on \<open>tool_call["id"]\<close> or on
  the unbound \<open>arguments\<close>.  Such an exception leaves \<open>execute_tool\<close>.
\<close>

definition execute_tool ::
  "'v runtime \<Rightarrow> (pystr \<times> 'v tool) list \<Rightarrow> json \<Rightarrow>
   (py_exn + 'v tool_result) \<times> (json \<times> json) list" where
  "execute_tool R tool_functions tool_call =
     (case and_then (py_getitem tool_call (ascii ''function''))
             (\<lambda>f. py_getitem f (ascii ''name'')) of
        Inl e \<Rightarrow> (Inl UnboundLocalError, [])
      | Inr fname \<Rightarrow>
          (case and_then (py_getitem tool_call (ascii ''function''))
                  (\<lambda>f. py_getitem f (ascii ''arguments'')) of
             Inl e \<Rightarrow>
               (and_then (py_getitem tool_call (ascii ''id'')) (\<lambda>i. Inl UnboundLocalError), [])
           | Inr raw \<Rightarrow>
               (case (case raw of JStr s \<Rightarrow> json_loads R s | _ \<Rightarrow> Inr raw) of
                  Inl e \<Rightarrow> (execute_tool_handler R tool_call fname raw e, [])
                | Inr args \<Rightarrow>
                    (case registry_lookup tool_functions fname of
                       Inl e \<Rightarrow> (execute_tool_handler R tool_call fname args e, [])
                     | Inr None \<Rightarrow>
                         (case py_getitem tool_call (ascii ''id'') of
                            Inl e \<Rightarrow> (execute_tool_handler R tool_call fname args e, [])
                          | Inr i \<Rightarrow>
                              (Inr \<lparr> tool_call_id = i, function_name = fname,
                                     arguments = args,
                                     result = Text (not_found_text R fname),
                                     call_success = False \<rparr>, []))
                     | Inr (Some tool) \<Rightarrow>
                         (case tool args of
                            Inl e \<Rightarrow>
                              (execute_tool_handler R tool_call fname args e, [(fname, args)])
                          | Inr v \<Rightarrow>
                              (case py_getitem tool_call (ascii ''id'') of
                                 Inl e \<Rightarrow>
                                   (execute_tool_handler R tool_call fname args e,
                                    [(fname, args)])
                               | Inr i \<Rightarrow>
                                   (Inr \<lparr> tool_call_id = i, function_name = fname,
                                          arguments = args, result = ToolValue v,
                                          call_success = True \<rparr>,
                                    [(fname, args)])))))))"

text \<open>The loop over the requested calls: it stops at the first exception.\<close>

fun execute_all ::
  "'v runtime \<Rightarrow> (pystr \<times> 'v tool) list \<Rightarrow> json list \<Rightarrow>
   (py_exn + 'v tool_result list) \<times> (json \<times> json) list" where
  "execute_all R tool_functions [] = (Inr [], [])"
| "execute_all R tool_functions (c # cs) =
     (case execute_tool R tool_functions c of
        (Inl e, made) \<Rightarrow> (Inl e, made)
      | (Inr r, made) \<Rightarrow>
          (case execute_all R tool_functions cs of
             (Inl e, made') \<Rightarrow> (Inl e, made @ made')
           | (Inr rs, made') \<Rightarrow> (Inr (r # rs), made @ made')))"

text \<open>The loop that builds one \<open>tool\<close> message per result, serialising its payload.\<close>

fun tool_messages :: "'v runtime \<Rightarrow> 'v tool_result list \<Rightarrow> py_exn + json list" where
  "tool_messages R [] = Inr []"
| "tool_messages R (r # rs) =
     and_then (json_dumps R (result r))
       (\<lambda>content.
          and_then (tool_messages R rs)
            (\<lambda>ms. Inr (JObj [(ascii ''role'', JStr (ascii ''tool'')),
                               (ascii ''tool_call_id'', tool_call_id r),
                               (ascii ''content'', JStr content)] # ms)))"

fun str_join :: "pystr \<Rightarrow> pystr list \<Rightarrow> pystr" where
  "str_join sep [] = []"
| "str_join sep [x] = x"
| "str_join sep (x # y # ys) = x @ sep @ str_join sep (y # ys)"

definition failed_entry :: "'v runtime \<Rightarrow> 'v tool_result \<Rightarrow> pystr" where
  "failed_entry R r = fstr R (function_name r) @ ascii '': '' @ fstr_payload R (result r)"

definition tool_failure_text :: "'v runtime \<Rightarrow> 'v tool_result list \<Rightarrow> pystr" where
  "tool_failure_text R tool_results' =
     tool_failure_prefix
       @ str_join (ascii ''; '')
           (map (failed_entry R) (filter (\<lambda>r. \<not> call_success r) tool_results'))"

text \<open>What \<open>process_function_calling\<close> returns: the dictionary with its optional keys.\<close>

record 'v fc_result =
  success :: bool
  error :: "pystr option"
  tool_results :: "'v tool_result list"
  final_response :: "json option"

text \<open>The outside world of the protocol: the requests sent and the tools invoked.\<close>

record fc_world =
  completion_requests :: "json list list"
  tool_invocations :: "(json \<times> json) list"

definition exception_result :: "'v runtime \<Rightarrow> py_exn \<Rightarrow> 'v fc_result" where
  "exception_result R e =
     \<lparr> success = False, error = Some (str_of_exn R e), tool_results = [],
       final_response = None \<rparr>"

text \<open>
  The message of a response: \<open>response["result"]["message"]\<close>, or
  \<open>response["choices"][0]["message"]\<close>, or none (the \<open>else\<close> branch).
\<close>

definition select_message :: "json \<Rightarrow> py_exn + json option" where
  "select_message resp =
     and_then (py_in (ascii ''result'') resp)
       (\<lambda>has_result.
          and_then
            (if has_result
             then and_then (py_getitem resp (ascii ''result'')) (py_in (ascii ''message''))
             else Inr False)
            (\<lambda>first.
               if first then
                 and_then (py_getitem resp (ascii ''result''))
                   (\<lambda>r. and_then (py_getitem r (ascii ''message'')) (\<lambda>m. Inr (Some m)))
               else
                 and_then (py_in (ascii ''choices'') resp)
                   (\<lambda>has_choices.
                      and_then
                        (if has_choices
                         then and_then (py_getitem resp (ascii ''choices''))
                                (\<lambda>c. Inr (truthy c))
                         else Inr False)
                        (\<lambda>second.
                           if second then
                             and_then (py_getitem resp (ascii ''choices''))
                               (\<lambda>c. and_then (py_getitem0 c)
                                  (\<lambda>choice.
                                     and_then (py_getitem choice (ascii ''message''))
                                       (\<lambda>m. Inr (Some m))))
                           else Inr None))))"

text \<open>\<open>"toolCalls" not in message and "tool_calls" not in message\<close>.\<close>

definition no_tool_calls :: "json \<Rightarrow> py_exn + bool" where
  "no_tool_calls message =
     and_then (py_in (ascii ''toolCalls'') message)
       (\<lambda>a. if a then Inr False
            else and_then (py_in (ascii ''tool_calls'') message) (\<lambda>b. Inr (\<not> b)))"

text \<open>
  \<open>message.get("toolCalls", message.get("tool_calls", []))\<close>, as the list of items
  the \<open>for\<close> loop runs over.
\<close>

definition requested_tool_calls :: "json \<Rightarrow> py_exn + json list" where
  "requested_tool_calls message =
     and_then (py_get message (ascii ''tool_calls'') (JArr []))
       (\<lambda>inner. and_then (py_get message (ascii ''toolCalls'') inner) py_iter)"

text \<open>The feedback turn appended to the transcript when \<open>feedback\<close> is not empty.\<close>

definition feedback_message :: "pystr \<Rightarrow> json" where
  "feedback_message feedback =
     JObj [(ascii ''role'', JStr (ascii ''user'')),
           (ascii ''content'',
            JStr ([51060, 51204, 32, 51025, 45813, 50640, 32, 45824, 54620, 32, 54588, 46300,
                   48177, 58, 32] @ feedback
                  @ [10, 51060, 32, 54588, 46300, 48177, 51012, 32, 48152, 50689, 54616, 50668,
                     32, 45796, 49884, 32, 51025, 45813, 54644, 51452, 49464, 50836, 46]))]"

text \<open>
  The part of \<open>process_function_calling\<close> that follows the completion call.  Every
  exception ends in the outer \<open>except\<close> clause; tools invoked before it stay
  invoked.
\<close>

definition handle_response ::
  "'v runtime \<Rightarrow> (pystr \<times> 'v tool) list \<Rightarrow> json \<Rightarrow> fc_world \<Rightarrow> 'v fc_result \<times> fc_world" where
  "handle_response R tool_functions resp w =
     (case select_message resp of
        Inl e \<Rightarrow> (exception_result R e, w)
      | Inr None \<Rightarrow>
          (\<lparr> success = False, error = Some (ascii ''Invalid API response''),
                     tool_results = [], final_response = None \<rparr>, w)
      | Inr (Some message) \<Rightarrow>
          (case no_tool_calls message of
             Inl e \<Rightarrow> (exception_result R e, w)
           | Inr True \<Rightarrow>
               (case py_get message (ascii ''content'') (JStr []) of
                  Inl e \<Rightarrow> (exception_result R e, w)
                | Inr content \<Rightarrow>
                    (\<lparr> success = True, error = None, tool_results = [],
                       final_response = Some content \<rparr>, w))
           | Inr False \<Rightarrow>
               (case requested_tool_calls message of
                  Inl e \<Rightarrow> (exception_result R e, w)
                | Inr tool_calls \<Rightarrow>
                    (case execute_all R tool_functions tool_calls of
                       (executed, made) \<Rightarrow>
                         (let w' = w\<lparr>tool_invocations := tool_invocations w @ made\<rparr>
                          in case executed of
                               Inl e \<Rightarrow> (exception_result R e, w')
                             | Inr rs \<Rightarrow>
                                 (case tool_messages R rs of
                                    Inl e \<Rightarrow> (exception_result R e, w')
                                  | Inr tms \<Rightarrow>
                                      if list_all call_success rs then
                                        (\<lparr> success = True, error = None, tool_results = rs,
                                           final_response = Some JNull \<rparr>, w')
                                      else
                                        (\<lparr> success = False,
                                           error = Some (tool_failure_text R rs),
                                           tool_results = rs,
                                           final_response = None \<rparr>, w')))))))"

text \<open>
  The transcript that is sent: a copy of \<open>initial_messages\<close>, with the feedback turn
  when \<open>feedback\<close> is not empty.
\<close>

definition sent_messages :: "json list \<Rightarrow> pystr \<Rightarrow> json list" where
  "sent_messages initial_messages feedback =
     initial_messages @ (if feedback \<noteq> [] then [feedback_message feedback] else [])"

text \<open>
  \<open>call_clova_function_calling\<close>: one POST of the transcript and the tool
  declarations to the completion service.  The world records the request that is
  sent.  The parameter \<open>gateway\<close> stands for the service: what the POST, the status
  check and the decoding of the body yield for this request, the decoded response
  or an exception, which is raised again.
\<close>

definition call_clova_function_calling ::
  "(json list \<Rightarrow> json \<Rightarrow> pystr \<Rightarrow> py_exn + json) \<Rightarrow> json list \<Rightarrow> json \<Rightarrow> pystr \<Rightarrow> fc_world \<Rightarrow>
   (py_exn + json) \<times> fc_world" where
  "call_clova_function_calling gateway messages tools key w =
     (gateway messages tools key, w\<lparr>completion_requests := completion_requests w @ [messages]\<rparr>)"

text \<open>
  \<open>process_function_calling\<close>: the transcript is completed, the service is called,
  and the response is handled.  An exception of the call ends in the outer
  \<open>except\<close> clause.
\<close>

definition process_function_calling ::
  "'v runtime \<Rightarrow> (json list \<Rightarrow> json \<Rightarrow> pystr \<Rightarrow> py_exn + json) \<Rightarrow> (pystr \<times> 'v tool) list \<Rightarrow>
   json list \<Rightarrow> json \<Rightarrow> pystr \<Rightarrow> pystr \<Rightarrow> fc_world \<Rightarrow> 'v fc_result \<times> fc_world" where
  "process_function_calling R gateway tool_functions initial_messages tools feedback key w =
     (let messages = sent_messages initial_messages feedback
      in case call_clova_function_calling gateway messages tools key w of
           (Inl e, w1) \<Rightarrow> (exception_result R e, w1)
         | (Inr resp, w1) \<Rightarrow> handle_response R tool_functions resp w1)"

text \<open>
  Concrete inputs for the protocol.  A tool returns either a value made of JSON
  data or a date object; \<open>json.dumps\<close> raises on the latter.
\<close>

datatype demo_value = JsonValue json | DateObject int

definition demo_runtime :: "demo_value runtime" where
  "demo_runtime =
     \<lparr> str_of_json = (\<lambda>x. ascii ''<value>''),
       str_of_exn = (\<lambda>e. ascii ''<exception>''),
       str_of_value = (\<lambda>v. ascii ''<value>''),
       json_loads = (\<lambda>s. if s = ascii ''{}'' then Inr (JObj []) else Inl JSONDecodeError),
       json_dumps_str = (\<lambda>s. [34] @ s @ [34]),
       json_dumps_value =
         (\<lambda>v. case v of JsonValue j \<Rightarrow> Inr (ascii ''<json>'') | DateObject d \<Rightarrow> Inl TypeError) \<rparr>"

definition demo_tools :: "(pystr \<times> demo_value tool) list" where
  "demo_tools =
     [(ascii ''get_price'', (\<lambda>args. Inr (JsonValue (JNum 71000)))),
      (ascii ''get_volume'', (\<lambda>args. Inl (RaisedBy (ascii ''no data'')))),
      (ascii ''get_listing_date'', (\<lambda>args. Inr (DateObject 20240715)))]"

definition tool_call_of :: "string \<Rightarrow> string \<Rightarrow> json" where
  "tool_call_of call_id name =
     JObj [(ascii ''id'', JStr (ascii call_id)),
           (ascii ''function'',
            JObj [(ascii ''name'', JStr (ascii name)), (ascii ''arguments'', JStr (ascii ''{}''))])]"

definition response_with_message :: "json \<Rightarrow> json" where
  "response_with_message message = JObj [(ascii ''result'', JObj [(ascii ''message'', message)])]"

definition gateway_returning :: "json \<Rightarrow> json list \<Rightarrow> json \<Rightarrow> pystr \<Rightarrow> py_exn + json" where
  "gateway_returning resp messages tools key = Inr resp"

definition empty_world :: fc_world where
  "empty_world = \<lparr> completion_requests = [], tool_invocations = [] \<rparr>"

definition three_calls :: "json list" where
  "three_calls =
     [tool_call_of ''c1'' ''get_price'', tool_call_of ''c2'' ''get_volume'',
      tool_call_of ''c3'' ''get_price'']"

definition price_result :: "string \<Rightarrow> demo_value tool_result" where
  "price_result call_id =
     \<lparr> tool_call_id = JStr (ascii call_id), function_name = JStr (ascii ''get_price''),
       arguments = JObj [], result = ToolValue (JsonValue (JNum 71000)), call_success = True \<rparr>"

definition volume_result :: "demo_value tool_result" where
  "volume_result =
     \<lparr> tool_call_id = JStr (ascii ''c2''), function_name = JStr (ascii ''get_volume''),
       arguments = JObj [],
       result = Text (exec_error_text demo_runtime (RaisedBy (ascii ''no data''))),
       call_success = False \<rparr>"

definition listing_date_result :: "demo_value tool_result" where
  "listing_date_result =
     \<lparr> tool_call_id = JStr (ascii ''c1''), function_name = JStr (ascii ''get_listing_date''),
       arguments = JObj [], result = ToolValue (DateObject 20240715), call_success = True \<rparr>"

definition tool_call_message :: "json list \<Rightarrow> json" where
  "tool_call_message calls = JObj [(ascii ''toolCalls'', JArr calls)]"

definition demo_round :: "json \<Rightarrow> demo_value fc_result \<times> fc_world" where
  "demo_round resp =
     process_function_calling demo_runtime (gateway_returning resp) demo_tools [] JNull [] []
       empty_world"

section \<open>Quiz node (\<open>nodes/quiz_stock_data.py\<close>)\<close>

text \<open>
  The durable quiz history.  \<open>QuizDatabase.save_quiz_result\<close> opens a connection,
  executes one \<open>INSERT\<close> stamped with the current time, commits and closes; any
  exception on the way is caught and answered with \<open>False\<close>.  \<open>sqlite_fault\<close> says
  which step of a call raises, if any.  A row is durable once the commit has
  returned.
\<close>

record quiz_history_row =
  row_values :: save_args
  completed_at :: datetime
  created_at :: datetime

datatype sqlite_fault = NoFault | ConnectFails | ExecuteFails | CommitFails | CloseFails

definition save_quiz_result ::
  "sqlite_fault \<Rightarrow> datetime \<Rightarrow> save_args \<Rightarrow> quiz_history_row list \<Rightarrow>
   (py_exn + bool) \<times> quiz_history_row list" where
  "save_quiz_result fault current_time values quiz_history =
     (let row = \<lparr> row_values = values, completed_at = current_time,
                   created_at = current_time \<rparr>
      in case fault of
           NoFault \<Rightarrow> (Inr True, quiz_history @ [row])
         | CloseFails \<Rightarrow> (Inr False, quiz_history @ [row])
         | _ \<Rightarrow> (Inr False, quiz_history))"

text \<open>
  The collaborators of the node are parameters.  \<open>make_checker\<close> is the construction
  \<open>QuizAnswerChecker()\<close>: \<open>None\<close> when it returns, the exception when it raises.
  \<open>check_answer\<close>, \<open>get_hint\<close>, \<open>generate_answer_package\<close>, \<open>format_answer_result\<close>
  and \<open>generate_quiz_start_message\<close> catch their own failures and always return.
  \<open>combined_news_hint\<close> is the news lookup followed by \<open>_combine_hints\<close>.
  \<open>quiz_file_exists\<close>, \<open>parse_quiz_file\<close>, \<open>get_unplayed_quiz\<close> and
  \<open>generate_session_id\<close> are what the start of a quiz reads from the file system,
  the history and the random source.
\<close>

record answer_result =
  ar_success :: bool
  ar_is_correct :: bool

record package_reward =
  pkg_stock_name :: "pystr option"
  pkg_amount :: "rat option"

record info_package =
  pkg_reward_info :: "package_reward option"
  pkg_rest :: json

record quiz_env =
  make_checker :: "py_exn option"
  check_answer :: "quiz_data \<Rightarrow> pystr \<Rightarrow> answer_result"
  get_hint :: "quiz_data \<Rightarrow> pystr"
  generate_answer_package :: "quiz_data \<Rightarrow> pystr \<Rightarrow> answer_result \<Rightarrow> pystr \<Rightarrow> info_package"
  format_answer_result :: "info_package \<Rightarrow> pystr"
  combined_news_hint :: "quiz_data \<Rightarrow> pystr \<Rightarrow> py_exn + pystr"
  quiz_file_exists :: bool
  parse_quiz_file :: "quiz_data list"
  get_unplayed_quiz :: "quiz_data list \<Rightarrow> pystr \<Rightarrow> quiz_data option"
  generate_session_id :: pystr
  generate_quiz_start_message :: "quiz_data \<Rightarrow> pystr"
  exn_text :: "py_exn \<Rightarrow> pystr"

text \<open>The help-seeking phrases of \<open>_handle_user_answer\<close>, in the order of the source.\<close>

definition hint_phrases :: "pystr list" where
  "hint_phrases =
     [[55180, 53944],
      [104, 105, 110, 116],
      [46020, 50880],
      [104, 101, 108, 112],
      [55180, 53944, 32, 51452, 49464, 50836],
      [55180, 53944, 51452, 49464, 50836],
      [55180, 53944, 32, 51328],
      [55180, 53944, 51328],
      [46020, 50880, 32, 51452, 49464, 50836],
      [46020, 50880, 51452, 49464, 50836],
      [46020, 50752, 51452, 49464, 50836],
      [46020, 50752, 51480],
      [47784, 47476, 44192, 50612],
      [47784, 47476, 44192, 50612, 50836],
      [47784, 47476, 44192, 45796],
      [47792, 46972],
      [47792, 46972, 50836],
      [50612, 47140, 50892],
      [50612, 47140, 50892, 50836],
      [50612, 47157, 45796],
      [50612, 47140, 50868, 45936],
      [51096, 32, 47784, 47476, 44192, 50612],
      [51096, 32, 47784, 47476, 44192, 50612, 50836],
      [51096, 32, 47784, 47476, 44192, 45348],
      [54775, 44040, 47140],
      [54775, 44040, 47140, 50836],
      [54775, 44040, 47536, 45796],
      [50528, 47588, 54644],
      [50528, 47588, 54644, 50836],
      [47952, 51648],
      [47952, 50556],
      [47956, 51648],
      [47956, 44032, 50836]]"

text \<open>The error texts of the node (Korean sentences, by their code points).\<close>

definition phase_error_text :: pystr where
  \<comment> \<open>the phase is none of the four\<close>
  "phase_error_text =
     [53300, 51592, 32, 49464, 49496, 32, 49345, 53468, 32, 50724, 47448, 44032, 32, 48156,
      49373, 54664, 49845, 45768, 45796, 46]"

definition quiz_file_missing_text :: pystr where
  \<comment> \<open>the quiz file is missing\<close>
  "quiz_file_missing_text =
     [53300, 51592, 32, 54028, 51068, 51012, 32, 52286, 51012, 32, 49688, 32, 50630, 49845,
      45768, 45796, 46]"

definition no_valid_quiz_text :: pystr where
  \<comment> \<open>no valid quiz could be loaded\<close>
  "no_valid_quiz_text =
     [50976, 54952, 54620, 32, 53300, 51592, 47484, 32, 47196, 46300, 54624, 32, 49688, 32,
      50630, 49845, 45768, 45796, 46]"

definition quiz_selection_failed_text :: pystr where
  \<comment> \<open>no quiz could be selected\<close>
  "quiz_selection_failed_text =
     [53300, 51592, 32, 49440, 53469, 50640, 32, 49892, 54056, 54664, 49845, 45768, 45796,
      46]"

definition no_active_quiz_text :: pystr where
  \<comment> \<open>there is no current question\<close>
  "no_active_quiz_text =
     [54876, 49457, 54868, 46108, 32, 53300, 51592, 44032, 32, 50630, 49845, 45768, 45796,
      46]"

definition verification_failed_text :: pystr where
  \<comment> \<open>the answer check did not succeed\<close>
  "verification_failed_text =
     [45813, 48320, 32, 44160, 51613, 32, 51473, 32, 50724, 47448, 44032, 32, 48156, 49373,
      54664, 49845, 45768, 45796, 46]"

definition answer_error_prefix :: pystr where
  \<comment> \<open>an exception while the answer is handled\<close>
  "answer_error_prefix =
     [45813, 48320, 32, 52376, 47532, 32, 51473, 32, 50724, 47448, 44032, 32, 48156, 49373,
      54664, 49845, 45768, 45796, 58, 32]"

definition wrong_error_prefix :: pystr where
  \<comment> \<open>an exception while a wrong answer is handled\<close>
  "wrong_error_prefix =
     [50724, 45813, 32, 52376, 47532, 32, 51473, 32, 50724, 47448, 44032, 32, 48156, 49373,
      54664, 49845, 45768, 45796, 58, 32]"

definition hint_error_prefix :: pystr where
  \<comment> \<open>an exception while a hint is prepared\<close>
  "hint_error_prefix =
     [55180, 53944, 32, 51228, 44277, 32, 51473, 32, 50724, 47448, 44032, 32, 48156, 49373,
      54664, 49845, 45768, 45796, 58, 32]"

text \<open>
  The message of \<open>_handle_wrong_answer\<close>: the announcement of the wrong answer, the
  answer as entered, the hint, and the invitation to answer again.
\<close>

definition wrong_answer_message :: "pystr \<Rightarrow> pystr \<Rightarrow> pystr" where
  "wrong_answer_message user_answer hint_text =
     [42, 42, 50724, 45813, 51077, 45768, 45796, 33, 42, 42, 10, 10, 51077, 47141, 54616,
      49888, 32, 45813, 48320, 58, 32]
     @ user_answer
     @ [10, 51221, 45813, 51008, 32, 45796, 47480, 32, 49440, 53469, 51648, 51077, 45768,
        45796, 46, 10, 10, 128161, 32, 42, 42, 55180, 53944, 42, 42, 58, 32]
     @ hint_text
     @ [10, 10, 45796, 49884, 32, 45813, 48320, 54644, 48372, 49464, 50836, 33]"

definition generate_error_response :: "StockAgentState \<Rightarrow> pystr \<Rightarrow> StockAgentState" where
  "generate_error_response state error_message =
     state\<lparr>data := QuizData (QuizErrorResult error_message) (ascii ''quiz_error'')\<rparr>"

definition handle_quiz_start ::
  "quiz_env \<Rightarrow> (save_args \<Rightarrow> 'db \<Rightarrow> (py_exn + bool) \<times> 'db) \<Rightarrow> datetime \<Rightarrow> StockAgentState \<Rightarrow>
   'db \<Rightarrow> StockAgentState \<times> 'db" where
  "handle_quiz_start E save now state db =
     (if \<not> quiz_file_exists E then (generate_error_response state quiz_file_missing_text, db)
      else
        (let quizzes = parse_quiz_file E
         in if quizzes = [] then (generate_error_response state no_valid_quiz_text, db)
            else
              (case get_unplayed_quiz E quizzes (request_id state) of
                 None \<Rightarrow> (generate_error_response state quiz_selection_failed_text, db)
               | Some selected_quiz \<Rightarrow>
                   (case start_new_session save (generate_session_id E) now state
                           selected_quiz db of
                      (state1, db1) \<Rightarrow>
                        (state1\<lparr>data :=
                           QuizData
                             (QuizGeneration (generate_quiz_start_message E selected_quiz)
                                selected_quiz)
                             (ascii ''quiz_start'')\<rparr>, db1)))))"

definition handle_hint_request ::
  "quiz_env \<Rightarrow> StockAgentState \<Rightarrow> quiz_data \<Rightarrow> StockAgentState" where
  "handle_hint_request E state quiz =
     (let state1 = state\<lparr>quiz_hint_used := True\<rparr>
      in case make_checker E of
           Some e \<Rightarrow> generate_error_response state1 (hint_error_prefix @ exn_text E e)
         | None \<Rightarrow>
             (case combined_news_hint E quiz (get_hint E quiz) of
                Inl e \<Rightarrow> generate_error_response state1 (hint_error_prefix @ exn_text E e)
              | Inr hint_message \<Rightarrow>
                  state1\<lparr>data := QuizData (HintProvided hint_message) (ascii ''quiz_hint'')\<rparr>))"

text \<open>
  \<open>_handle_wrong_answer\<close>: the phase goes back to \<open>asking\<close>, then the hint is
  fetched and the message composed.  The session is not ended.  The handlers that
  change the phase return the lines written to the log beside their result.
\<close>

definition handle_wrong_answer ::
  "quiz_env \<Rightarrow> StockAgentState \<Rightarrow> quiz_data \<Rightarrow> pystr \<Rightarrow> StockAgentState \<times> phase_change list" where
  "handle_wrong_answer E state quiz user_answer =
     (case update_session_phase_logged state ASKING of
        (state1, lines) \<Rightarrow>
          (case make_checker E of
             Some e \<Rightarrow> (generate_error_response state1 (wrong_error_prefix @ exn_text E e), lines)
           | None \<Rightarrow>
               (let hint_text = get_hint E quiz
                in (state1\<lparr>data :=
                      QuizData
                        (WrongAnswerWithHint (wrong_answer_message user_answer hint_text)
                           user_answer hint_text)
                        (ascii ''quiz_wrong_answer'')\<rparr>, lines))))"

text \<open>
  \<open>_handle_correct_answer\<close>: the answer package is built, the phase is set to
  \<open>completed\<close>, and the session is ended with \<open>save_to_db=True\<close>.  \<open>reward_of\<close> is
  the \<open>reward_info\<close> argument drawn from the package.
\<close>

definition reward_of :: "info_package \<Rightarrow> quiz_data \<Rightarrow> reward_info" where
  "reward_of package quiz =
     (let reward =
            (case pkg_reward_info package of
               None \<Rightarrow> \<lparr>pkg_stock_name = None, pkg_amount = None\<rparr>
             | Some r \<Rightarrow> r)
      in \<lparr> stock = Some (key_or (pkg_stock_name reward) (company (correct quiz))),
           amount = Some (key_or (pkg_amount reward) 0) \<rparr>)"

definition handle_correct_answer ::
  "quiz_env \<Rightarrow> (save_args \<Rightarrow> 'db \<Rightarrow> (py_exn + bool) \<times> 'db) \<Rightarrow> StockAgentState \<Rightarrow> quiz_data \<Rightarrow>
   pystr \<Rightarrow> answer_result \<Rightarrow> 'db \<Rightarrow> (StockAgentState \<times> 'db) \<times> phase_change list" where
  "handle_correct_answer E save state quiz user_answer checked db =
     (let req_id = request_id state;
          package = generate_answer_package E quiz user_answer checked req_id
      in case update_session_phase_logged state COMPLETED of
           (state1, lines) \<Rightarrow>
             (case end_session save state1 True user_answer True req_id
                     (Some (reward_of package quiz)) db of
                (state2, db') \<Rightarrow>
                  ((state2\<lparr>data :=
                      QuizData (AnswerChecking (format_answer_result E package))
                        (ascii ''quiz_answer'')\<rparr>, db'), lines)))"

definition handle_user_answer ::
  "quiz_env \<Rightarrow> unicode_db \<Rightarrow> (save_args \<Rightarrow> 'db \<Rightarrow> (py_exn + bool) \<times> 'db) \<Rightarrow> StockAgentState \<Rightarrow>
   pystr \<Rightarrow> 'db \<Rightarrow> (StockAgentState \<times> 'db) \<times> phase_change list" where
  "handle_user_answer E U save state user_answer db =
     (case quiz_current_question state of
        None \<Rightarrow>
          (case end_session_default save state db of
             (state', db') \<Rightarrow> ((generate_error_response state' no_active_quiz_text, db'), []))
      | Some current_quiz \<Rightarrow>
          if py_lower U user_answer \<in> set hint_phrases
          then ((handle_hint_request E state current_quiz, db), [])
          else
            (case update_session_phase_logged state PROCESSING of
               (state1, lines) \<Rightarrow>
                 (case make_checker E of
                    Some e \<Rightarrow>
                      (case end_session_default save state1 db of
                         (state', db') \<Rightarrow>
                           ((generate_error_response state'
                               (answer_error_prefix @ exn_text E e), db'), lines))
                  | None \<Rightarrow>
                      (let checked = check_answer E current_quiz user_answer
                       in if \<not> ar_success checked
                          then ((generate_error_response state1 verification_failed_text, db),
                                lines)
                          else if ar_is_correct checked
                          then (case handle_correct_answer E save state1 current_quiz
                                       user_answer checked db of
                                  (r, lines') \<Rightarrow> (r, lines @ lines'))
                          else (case handle_wrong_answer E state1 current_quiz user_answer of
                                  (state2, lines') \<Rightarrow> ((state2, db), lines @ lines'))))))"

definition handle_session_completion ::
  "(save_args \<Rightarrow> 'db \<Rightarrow> (py_exn + bool) \<times> 'db) \<Rightarrow> StockAgentState \<Rightarrow> 'db \<Rightarrow>
   StockAgentState \<times> 'db" where
  "handle_session_completion save state db =
     (case end_session_default save state db of
        (state', db') \<Rightarrow>
          (state'\<lparr>data := QuizData SessionCompleted (ascii ''quiz_completion'')\<rparr>, db'))"

text \<open>
  \<open>quiz_stock_data\<close>: the query is stripped, an expired session is ended, and the
  phase decides the handler.  Every handler catches its own exceptions.  The node
  returns the state, the storage, and the phase changes written to the log.
\<close>

definition quiz_stock_data ::
  "quiz_env \<Rightarrow> unicode_db \<Rightarrow> (save_args \<Rightarrow> 'db \<Rightarrow> (py_exn + bool) \<times> 'db) \<Rightarrow> datetime \<Rightarrow>
   StockAgentState \<Rightarrow> 'db \<Rightarrow> (StockAgentState \<times> 'db) \<times> phase_change list" where
  "quiz_stock_data E U save now state db =
     (let q = py_strip U (query state)
      in case cleanup_expired_session save now state db of
           (state1, db1) \<Rightarrow>
             (let current_phase = quiz_session_phase state1
              in if current_phase = phase_value INACTIVE
                 then (handle_quiz_start E save now state1 db1, [])
                 else if current_phase = phase_value ASKING
                 then handle_user_answer E U save state1 q db1
                 else if current_phase = phase_value PROCESSING
                 then (case update_session_phase_logged state1 COMPLETED of
                         (state2, lines) \<Rightarrow> (handle_session_completion save state2 db1, lines))
                 else if current_phase = phase_value COMPLETED
                 then (handle_session_completion save state1 db1, [])
                 else
                   (case end_session_default save state1 db1 of
                      (state', db') \<Rightarrow>
                        ((generate_error_response state' phase_error_text, db'), []))))"

section \<open>Agent graph (\<open>graph/constant.py\<close>, \<open>graph/graph.py\<close>)\<close>

text \<open>
  The node names, and the name under which the graph library knows the end of a
  run.
\<close>

definition PREPROCESS :: pystr where
  "PREPROCESS = ascii ''preprocess''"

definition AMBIGUOUS_QUERY_node :: pystr where
  "AMBIGUOUS_QUERY_node = ascii ''ambiguous_query''"

definition FETCH_STOCK_DATA_node :: pystr where
  "FETCH_STOCK_DATA_node = ascii ''fetch_stock_data''"

definition CONDITIONAL_STOCK_DATA_node :: pystr where
  "CONDITIONAL_STOCK_DATA_node = ascii ''conditional_stock_data''"

definition SIGNAL_STOCK_DATA_node :: pystr where
  "SIGNAL_STOCK_DATA_node = ascii ''signal_stock_data''"

definition QUIZ_STOCK_DATA :: pystr where
  "QUIZ_STOCK_DATA = ascii ''quiz_stock_data''"

definition QUIZ_GENERATE_RESPONSE :: pystr where
  "QUIZ_GENERATE_RESPONSE = ascii ''quiz_generate_response''"

definition GENERATE_RESPONSE :: pystr where
  "GENERATE_RESPONSE = ascii ''generate_response''"

definition END :: pystr where
  "END = ascii ''__end__''"

text \<open>
  A node takes the state and returns the state or raises; \<open>'w\<close> is what it may
  change outside the state (the quiz history for the quiz node).  The nodes that
  are not modelled here are parameters, with the collaborators of the modelled
  ones.
\<close>

type_synonym 'w node_function = "StockAgentState \<Rightarrow> 'w \<Rightarrow> (py_exn + StockAgentState) \<times> 'w"

record 'w agent_env =
  agent_unicode :: unicode_db
  classify_query_chain :: "bool \<Rightarrow> pystr \<Rightarrow> (pystr \<times> json) list \<Rightarrow> py_exn + pystr"
  clarify_collaborators :: clarify_env
  quiz_collaborators :: quiz_env
  quiz_save :: "datetime \<Rightarrow> save_args \<Rightarrow> 'w \<Rightarrow> (py_exn + bool) \<times> 'w"
  preprocess :: "'w node_function"
  fetch_stock_data :: "'w node_function"
  conditional_stock_data :: "'w node_function"
  signal_stock_data :: "'w node_function"
  quiz_generate_response :: "'w node_function"
  generate_response :: "'w node_function"

text \<open>The nodes added to the graph, at the instant \<open>now\<close> of the run.\<close>

definition graph_nodes :: "'w agent_env \<Rightarrow> datetime \<Rightarrow> (pystr \<times> 'w node_function) list" where
  "graph_nodes A now =
     [(PREPROCESS, preprocess A),
      (CLASSIFY_QUERY,
       (\<lambda>state w. (classify_query (agent_unicode A) (classify_query_chain A) state, w))),
      (AMBIGUOUS_QUERY_node,
       (\<lambda>state w. (clarify_question_node (clarify_collaborators A) state, w))),
      (FETCH_STOCK_DATA_node, fetch_stock_data A),
      (CONDITIONAL_STOCK_DATA_node, conditional_stock_data A),
      (SIGNAL_STOCK_DATA_node, signal_stock_data A),
      (QUIZ_STOCK_DATA,
       (\<lambda>state w.
          case quiz_stock_data (quiz_collaborators A) (agent_unicode A) (quiz_save A now) now
                 state w of
            ((state', w'), lines) \<Rightarrow> (Inr state', w'))),
      (QUIZ_GENERATE_RESPONSE, quiz_generate_response A),
      (GENERATE_RESPONSE, generate_response A)]"

text \<open>
  The edges.  \<open>classify_query\<close> and \<open>ambiguous_query\<close> have conditional edges: the
  path function is applied to the state the node returned, and its result is
  looked up in the mapping of the edge.
\<close>

definition classify_query_branches :: "(pystr \<times> pystr) list" where
  "classify_query_branches =
     [(ascii ''fetch_stock_data'', FETCH_STOCK_DATA_node),
      (ascii ''conditional_stock_data'', CONDITIONAL_STOCK_DATA_node),
      (ascii ''signal_stock_data'', SIGNAL_STOCK_DATA_node),
      (ascii ''quiz_stock_data'', QUIZ_STOCK_DATA),
      (ascii ''ambiguous_query'', AMBIGUOUS_QUERY_node)]"

definition ambiguous_query_branches :: "(pystr \<times> pystr) list" where
  "ambiguous_query_branches =
     [(ascii ''ask_clarification'', END),
      (ascii ''classify_query'', CLASSIFY_QUERY)]"

definition graph_edges :: "(pystr \<times> pystr) list" where
  "graph_edges =
     [(PREPROCESS, CLASSIFY_QUERY),
      (FETCH_STOCK_DATA_node, GENERATE_RESPONSE),
      (CONDITIONAL_STOCK_DATA_node, GENERATE_RESPONSE),
      (SIGNAL_STOCK_DATA_node, GENERATE_RESPONSE),
      (QUIZ_STOCK_DATA, QUIZ_GENERATE_RESPONSE),
      (QUIZ_GENERATE_RESPONSE, END),
      (GENERATE_RESPONSE, END)]"


definition branch :: "(pystr \<times> pystr) list \<Rightarrow> pystr \<Rightarrow> py_exn + pystr" where
  "branch mapping path =
     (case map_of mapping path of None \<Rightarrow> Inl (KeyError path) | Some node \<Rightarrow> Inr node)"

definition next_node :: "pystr \<Rightarrow> StockAgentState \<Rightarrow> py_exn + pystr" where
  "next_node node state =
     (if node = CLASSIFY_QUERY
      then branch classify_query_branches (classify_query_with_path state)
      else if node = AMBIGUOUS_QUERY_node
      then branch ambiguous_query_branches (ambiguous_query_with_path state)
      else (case map_of graph_edges node of None \<Rightarrow> Inr END | Some node' \<Rightarrow> Inr node'))"

text \<open>
  A run of the graph from a node: the node's function is applied to the state, an
  exception ends the run, otherwise the run goes on at the next node with the
  returned state, until \<open>END\<close>.  The library stops a run that takes more steps than
  its recursion limit (25 unless configured, and the graph is compiled without
  configuration).
\<close>

fun run_graph ::
  "nat \<Rightarrow> (pystr \<times> 'w node_function) list \<Rightarrow> pystr \<Rightarrow> StockAgentState \<Rightarrow> 'w \<Rightarrow>
   (py_exn + StockAgentState) \<times> 'w" where
  "run_graph 0 nodes node state w =
     (if node = END then (Inr state, w)
      else (Inl (RaisedBy (ascii ''GraphRecursionError'')), w))"
| "run_graph (Suc n) nodes node state w =
     (if node = END then (Inr state, w)
      else
        (case map_of nodes node of
           None \<Rightarrow> (Inl (KeyError node), w)
         | Some f \<Rightarrow>
             (case f state w of
                (Inl e, w1) \<Rightarrow> (Inl e, w1)
              | (Inr state1, w1) \<Rightarrow>
                  (case next_node node state1 of
                     Inl e \<Rightarrow> (Inl e, w1)
                   | Inr node1 \<Rightarrow> run_graph n nodes node1 state1 w1))))"



section \<open>Request handler (\<open>api_server.py\<close>)\<close>


section \<open>Concrete inputs\<close>

text \<open>Concrete inputs for the quiz node: a question, collaborators, a session in phase
  \<open>asking\<close> whose user enters \<open>1\<close> (wrong) and then \<open>2\<close> (correct).\<close>

definition quiz_demo :: quiz_data where
  "quiz_demo =
     \<lparr> quiz_id = 1,
       question = ascii ''Which company went public in 2022?'',
       options = [(ascii ''1'', ascii ''Alpha''), (ascii ''2'', ascii ''Beta''),
                  (ascii ''3'', ascii ''Gamma''), (ascii ''4'', ascii ''Delta'')],
       correct = \<lparr> number = ascii ''2'', company = ascii ''Beta'', symbol = [9313] \<rparr>,
       background = ascii ''Beta went public in 2022.'' \<rparr>"

definition quiz_demo_env :: quiz_env where
  "quiz_demo_env =
     \<lparr> make_checker = None,
       check_answer =
         (\<lambda>quiz a. \<lparr> ar_success = True, ar_is_correct = (a = number (correct quiz)) \<rparr>),
       get_hint = (\<lambda>quiz. ascii ''listed in 2022''),
       generate_answer_package =
         (\<lambda>quiz a checked req_id.
            \<lparr> pkg_reward_info =
                Some \<lparr> pkg_stock_name = Some (company (correct quiz)), pkg_amount = Some 2 \<rparr>,
              pkg_rest = JNull \<rparr>),
       format_answer_result = (\<lambda>package. ascii ''Correct!''),
       combined_news_hint = (\<lambda>quiz hint. Inr hint),
       quiz_file_exists = True,
       parse_quiz_file = [quiz_demo],
       get_unplayed_quiz = (\<lambda>quizzes req_id. Some quiz_demo),
       generate_session_id = ascii ''ab12cd34'',
       generate_quiz_start_message = (\<lambda>quiz. question quiz),
       exn_text = (\<lambda>e. ascii ''<exception>'') \<rparr>"

definition asking_state :: StockAgentState where
  "asking_state =
     default_stock_agent_state
       \<lparr> query := ascii '' 1 '',
         request_id := ascii ''S1'',
         quiz_session_active := True,
         quiz_current_question := Some quiz_demo,
         quiz_session_start_time := IsoTime (seconds 0),
         quiz_session_phase := ascii ''asking'',
         quiz_session_id := ascii ''ab12cd34'' \<rparr>"

definition after_wrong_answer :: StockAgentState where
  "after_wrong_answer =
     asking_state
       \<lparr>data :=
          QuizData
            (WrongAnswerWithHint
               ([42, 42, 50724, 45813, 51077, 45768, 45796, 33, 42, 42, 10, 10, 51077, 47141,
                 54616, 49888, 32, 45813, 48320, 58, 32]
                @ ascii ''1''
                @ [10, 51221, 45813, 51008, 32, 45796, 47480, 32, 49440, 53469, 51648, 51077,
                   45768, 45796, 46, 10, 10, 128161, 32, 42, 42, 55180, 53944, 42, 42, 58, 32]
                @ ascii ''listed in 2022''
                @ [10, 10, 45796, 49884, 32, 45813, 48320, 54644, 48372, 49464, 50836, 33])
               (ascii ''1'') (ascii ''listed in 2022''))
            (ascii ''quiz_wrong_answer'')\<rparr>"

text \<open>
  The state that enters the node on the next turn: the response, the context and
  the category are those of the nodes that ran in between, the query is the new
  answer.
\<close>

definition second_answer_state :: StockAgentState where
  "second_answer_state =
     after_wrong_answer
       \<lparr> query := ascii ''2'', response := ascii ''Wrong answer.'', context_map := [],
         query_category := ascii ''quiz_stock_data'', api_key := [] \<rparr>"

definition after_correct_answer :: StockAgentState where
  "after_correct_answer =
     second_answer_state
       \<lparr> data := QuizData (AnswerChecking (ascii ''Correct!'')) (ascii ''quiz_answer''),
         quiz_session_active := False,
         quiz_session_id := [],
         quiz_session_start_time := NoStartTime,
         quiz_current_question := None,
         quiz_hint_used := False,
         quiz_session_phase := ascii ''inactive'' \<rparr>"

definition demo_history_row :: quiz_history_row where
  "demo_history_row =
     \<lparr> row_values =
         \<lparr> h_request_id = ascii ''S1'', h_quiz_id = 1,
           h_quiz_question = ascii ''Which company went public in 2022?'',
           h_correct_answer = ascii ''Beta'', h_user_answer = ascii ''2'',
           h_is_correct = True, h_hint_used = False,
           h_reward_stock = ascii ''Beta'', h_reward_amount = 2 \<rparr>,
       completed_at = seconds 120, created_at = seconds 120 \<rparr>"

text \<open>
  Another question, and collaborators that select it for the next quiz; the state
  of a session restarted with it at 660 s.
\<close>

definition quiz_demo_next :: quiz_data where
  "quiz_demo_next =
     \<lparr> quiz_id = 2,
       question = ascii ''Which company split its stock in 2023?'',
       options = [(ascii ''1'', ascii ''Alpha''), (ascii ''2'', ascii ''Beta''),
                  (ascii ''3'', ascii ''Gamma''), (ascii ''4'', ascii ''Delta'')],
       correct = \<lparr> number = ascii ''3'', company = ascii ''Gamma'', symbol = [9314] \<rparr>,
       background = ascii ''Gamma split its stock in 2023.'' \<rparr>"

definition next_quiz_env :: quiz_env where
  "next_quiz_env = quiz_demo_env\<lparr>get_unplayed_quiz := (\<lambda>quizzes req_id. Some quiz_demo_next)\<rparr>"

definition restarted_state :: StockAgentState where
  "restarted_state =
     asking_state
       \<lparr> data :=
           QuizData (QuizGeneration (question quiz_demo_next) quiz_demo_next)
             (ascii ''quiz_start''),
         quiz_current_question := Some quiz_demo_next,
         quiz_session_start_time := IsoTime (seconds 660) \<rparr>"

text \<open>Concrete inputs for the classification and clarification nodes.\<close>

definition unparseable_chain :: "bool \<Rightarrow> pystr \<Rightarrow> (pystr \<times> json) list \<Rightarrow> py_exn + pystr" where
  "unparseable_chain clarified q ctx = Inr (ascii ''I do not know'')"



definition demo_env :: "(pystr \<times> json) list \<Rightarrow> clarify_env" where
  "demo_env analysis =
     \<lparr> llm_information_analysis = (\<lambda>q ctx. Inr analysis),
       llm_stock_name_found = (\<lambda>q. False),
       query_date_found = (\<lambda>q. False),
       generate_clarification_question = (\<lambda>q ctx. ascii ''Which stock do you mean?''),
       clarify_vague_question =
         (\<lambda>q. Inr [(ascii ''specific_question'',
                    ascii ''Which KOSPI stocks rose more than 5% on 2024-07-15?'')]) \<rparr>"

definition vague_state :: StockAgentState where
  "vague_state =
     default_stock_agent_state
       \<lparr>query := ascii ''any good stocks lately?'', query_category := ascii ''ambiguous_query''\<rparr>"

definition analysis_complete :: "(pystr \<times> json) list" where
  "analysis_complete = [(ascii ''information_completeness'', JStr (ascii ''COMPLETE''))]"

definition analysis_ambiguous :: "(pystr \<times> json) list" where
  "analysis_ambiguous = [(ascii ''information_completeness'', JStr (ascii ''AMBIGUOUS''))]"

definition analysis_no_stock :: "(pystr \<times> json) list" where
  "analysis_no_stock =
     [(ascii ''information_completeness'', JStr (ascii ''PARTIAL'')),
      (ascii ''missing_information_type'', JStr (ascii ''STOCK_NAME''))]"

definition analysis_relative_date :: "(pystr \<times> json) list" where
  "analysis_relative_date =
     [(ascii ''information_completeness'', JStr (ascii ''PARTIAL'')),
      (ascii ''missing_information_type'', JStr (ascii ''SPECIFIC_DATE'')),
      (ascii ''has_relative_time'', JBool True)]"

definition clarified_state :: StockAgentState where
  "clarified_state =
     vague_state
       \<lparr> clarification_info := Some
           \<lparr> original_query = ascii ''any good stocks lately?'',
             clarified_query = ascii ''Which KOSPI stocks rose more than 5% on 2024-07-15?'',
             start_date = [], end_date = [], market_scope = [], primary_criteria = [],
             secondary_criteria = [] \<rparr>,
         query := ascii ''Which KOSPI stocks rose more than 5% on 2024-07-15?'' \<rparr>"

text \<open>The state returned when the user is asked for the stock.\<close>

definition asked_state :: StockAgentState where
  "asked_state =
     vague_state
       \<lparr> response := ascii ''Which stock do you mean?'',
         query_category := ascii ''ask_clarification'' \<rparr>"

text \<open>
  Concrete collaborators for a whole request: the classification chain never names
  a category, the analysis finds the question ambiguous, preprocessing finds no
  background knowledge, and the retrieval and response nodes leave a payload and a
  response.
\<close>

definition demo_agent :: "quiz_history_row list agent_env" where
  "demo_agent =
     \<lparr> agent_unicode = ascii_only,
       classify_query_chain = unparseable_chain,
       clarify_collaborators = demo_env analysis_ambiguous,
       quiz_collaborators = quiz_demo_env,
       quiz_save = save_quiz_result NoFault,
       preprocess = (\<lambda>state w. (Inr (state\<lparr>context_map := []\<rparr>), w)),
       fetch_stock_data = (\<lambda>state w. (Inr (state\<lparr>data := Retrieval (ascii ''fetch'')\<rparr>), w)),
       conditional_stock_data =
         (\<lambda>state w. (Inr (state\<lparr>data := Retrieval (ascii ''conditional'')\<rparr>), w)),
       signal_stock_data = (\<lambda>state w. (Inr (state\<lparr>data := Retrieval (ascii ''signal'')\<rparr>), w)),
       quiz_generate_response = (\<lambda>state w. (Inr (state\<lparr>response := ascii ''Quiz.''\<rparr>), w)),
       generate_response =
         (\<lambda>state w. (Inr (state\<lparr>response := ascii ''Here is the data.''\<rparr>), w)) \<rparr>"




section \<open>Properties of the quiz session manager\<close>

lemma phase_value_inj: "phase_value a = phase_value b \<longleftrightarrow> a = b"
  by (cases a; cases b) (simp_all add: ascii_def)

lemma validate_session_transition_iff:
  "validate_session_transition state target \<longleftrightarrow>
     (\<exists>c. quiz_session_phase state = phase_value c \<and> (c, target) \<in> spec_allow_list)"
proof (cases "\<exists>c. quiz_session_phase state = phase_value c")
  case True
  then obtain c where c: "quiz_session_phase state = phase_value c" by blast
  have "validate_session_transition state target \<longleftrightarrow> (c, target) \<in> spec_allow_list"
    unfolding validate_session_transition_def valid_transitions_def spec_allow_list_def Let_def c
    by (cases c; cases target) (simp_all add: ascii_def)
  moreover have
    "(\<exists>c'. quiz_session_phase state = phase_value c' \<and> (c', target) \<in> spec_allow_list)
       \<longleftrightarrow> (c, target) \<in> spec_allow_list"
    using c phase_value_inj by auto
  ultimately show ?thesis by simp
next
  case False
  then have n: "\<And>c. quiz_session_phase state \<noteq> phase_value c" by blast
  have "map_of valid_transitions (quiz_session_phase state) = None"
    unfolding valid_transitions_def
    using n[of INACTIVE] n[of ASKING] n[of PROCESSING] n[of COMPLETED] by simp
  then have "\<not> validate_session_transition state target"
    by (simp add: validate_session_transition_def)
  with False show ?thesis by blast
qed

text \<open>
  C2, as claimed: a phase transition succeeds exactly when it is in the allow-list.
  It fails on the code.  In an active session that stands in phase \<open>completed\<close>
  (or \<open>processing\<close>), \<open>update_session_phase\<close> moves the phase to \<open>asking\<close>, although
  \<open>validate_session_transition\<close> answers \<open>False\<close> for both pairs: the update never
  consults the validator.
\<close>

theorem quiz_phase_legality_counterexample:
  "\<not> validate_session_transition
       (default_stock_agent_state
          \<lparr>quiz_session_active := True, quiz_session_phase := ascii ''completed''\<rparr>) ASKING
   \<and> quiz_session_phase
       (update_session_phase
          (default_stock_agent_state
             \<lparr>quiz_session_active := True, quiz_session_phase := ascii ''completed''\<rparr>) ASKING)
       = ascii ''asking''
   \<and> \<not> validate_session_transition
       (default_stock_agent_state
          \<lparr>quiz_session_active := True, quiz_session_phase := ascii ''processing''\<rparr>) ASKING
   \<and> quiz_session_phase
       (update_session_phase
          (default_stock_agent_state
             \<lparr>quiz_session_active := True, quiz_session_phase := ascii ''processing''\<rparr>) ASKING)
       = ascii ''asking''"
  by (simp add: validate_session_transition_def valid_transitions_def update_session_phase_def
      is_session_active_def default_stock_agent_state_def ascii_def)

text \<open>
  C2, amended: \<open>validate_session_transition\<close> answers \<open>True\<close> exactly for the pairs of
  the allow-list (and \<open>False\<close> whenever the current phase is none of the four phase
  strings); \<open>update_session_phase\<close> does not consult it: on an active session it
  sets the phase to whatever target is requested, on an inactive one it changes
  nothing.
\<close>

theorem quiz_phase_legality_amended:
  "(validate_session_transition state target \<longleftrightarrow>
      (\<exists>c. quiz_session_phase state = phase_value c \<and> (c, target) \<in> spec_allow_list))
   \<and> quiz_session_phase (update_session_phase state new_phase)
       = (if quiz_session_active state then phase_value new_phase
          else quiz_session_phase state)
   \<and> (if quiz_session_active state then True
       else update_session_phase state new_phase = state)"
  by (simp add: validate_session_transition_iff update_session_phase_def is_session_active_def)

text \<open>
  C10: whatever the state, the arguments and the behaviour of the storage
  collaborator (success, failure or an exception), \<open>end_session\<close> returns a state
  whose quiz sub-record is fully reset; a second call, with any arguments, returns
  the same state as the first.
\<close>

theorem end_session_total_idempotent:
  "quiz_session_active (fst (end_session save state s u c r w db)) = False \<and>
   quiz_session_id (fst (end_session save state s u c r w db)) = [] \<and>
   quiz_session_start_time (fst (end_session save state s u c r w db)) = NoStartTime \<and>
   quiz_current_question (fst (end_session save state s u c r w db)) = None \<and>
   quiz_hint_used (fst (end_session save state s u c r w db)) = False \<and>
   quiz_session_phase (fst (end_session save state s u c r w db)) = ascii ''inactive'' \<and>
   fst (end_session save' (fst (end_session save state s u c r w db)) s' u' c' r' w' db')
     = fst (end_session save state s u c r w db)"
  by (simp add: end_session_def Let_def)

section \<open>Properties of the session store\<close>

lemma fold_pop_session_store:
  "session_store (fold pop_session ks g) = filter (\<lambda>p. fst p \<notin> set ks) (session_store g)"
  by (induction ks arbitrary: g) (auto simp: pop_session_def dict_pop_def intro: filter_cong)

lemma fold_pop_session_timestamps:
  "session_timestamps (fold pop_session ks g)
     = filter (\<lambda>p. fst p \<notin> set ks) (session_timestamps g)"
  by (induction ks arbitrary: g) (auto simp: pop_session_def dict_pop_def intro: filter_cong)

lemma cleanup_store_subset:
  "set (session_store (cleanup_expired_sessions now g))
     \<subseteq> {p \<in> set (session_store g). fst p \<notin> set (expired_sessions now g)}"
  by (auto simp: cleanup_expired_sessions_def Let_def fold_pop_session_store)

lemma cleanup_timestamps_subset:
  "set (session_timestamps (cleanup_expired_sessions now g))
     \<subseteq> {p \<in> set (session_timestamps g). fst p \<notin> set (expired_sessions now g)}"
  by (auto simp: cleanup_expired_sessions_def Let_def fold_pop_session_timestamps)

lemma expired_absent:
  assumes "sid \<in> set (expired_sessions now g)"
  shows "\<not> dict_in sid (session_store (cleanup_expired_sessions now g))"
    and "\<not> dict_in sid (session_timestamps (cleanup_expired_sessions now g))"
  using assms cleanup_store_subset[of now g] cleanup_timestamps_subset[of now g]
  by (auto simp: dict_in_def)

lemma cleanup_within_capacity:
  assumes "length (filter (\<lambda>p. fst p \<notin> set (expired_sessions now g)) (session_store g))
             \<le> MAX_SESSIONS"
  shows "cleanup_expired_sessions now g = fold pop_session (expired_sessions now g) g"
  using assms by (simp add: cleanup_expired_sessions_def Let_def fold_pop_session_store)

lemma map_of_filter_keep:
  "k \<notin> S \<Longrightarrow> map_of (filter (\<lambda>p. fst p \<notin> S) d) k = map_of d k"
  by (induction d) auto

lemma not_expired_item:
  assumes d: "distinct (map fst (session_timestamps g))"
    and ts: "map_of (session_timestamps g) sid = Some ts"
    and fresh: "\<not> session_is_expired now g (sid, ts)"
  shows "sid \<notin> set (expired_sessions now g)"
proof
  assume "sid \<in> set (expired_sessions now g)"
  then obtain ts' where m: "(sid, ts') \<in> set (session_timestamps g)"
    and e: "session_is_expired now g (sid, ts')"
    by (auto simp: expired_sessions_def)
  from d m have "map_of (session_timestamps g) sid = Some ts'" by simp
  with ts have "ts' = ts" by simp
  with e fresh show False by simp
qed

text \<open>
  C6, amended.  A sweep at the instant \<open>now\<close> removes (from both dictionaries) every
  session whose timestamp is more than ten minutes old, and every session that is
  stored with an active quiz session which \<open>is_session_expired\<close> reports expired,
  whatever its own timestamp.  A session idle for ten minutes or less, with no such
  quiz session, keeps its record and its timestamp provided that at most
  \<open>MAX_SESSIONS\<close> records are left once the expired ones are removed; otherwise the
  capacity eviction of the same sweep runs as well and may remove it.
\<close>

theorem sweep_semantics:
  "(map_of (session_timestamps g) sid1 = Some ts1 \<longrightarrow>
      now - ts1 > timedelta_minutes 10 \<longrightarrow>
        \<not> dict_in sid1 (session_store (cleanup_expired_sessions now g)) \<and>
        \<not> dict_in sid1 (session_timestamps (cleanup_expired_sessions now g)))
   \<and> (map_of (session_timestamps g) sid2 = Some ts2 \<longrightarrow>
      map_of (session_store g) sid2 = Some st2 \<longrightarrow>
      quiz_session_active st2 \<longrightarrow> is_session_expired now st2 \<longrightarrow>
        \<not> dict_in sid2 (session_store (cleanup_expired_sessions now g)) \<and>
        \<not> dict_in sid2 (session_timestamps (cleanup_expired_sessions now g)))
   \<and> (distinct (map fst (session_timestamps g)) \<longrightarrow>
      length (filter (\<lambda>p. fst p \<notin> set (expired_sessions now g)) (session_store g))
        \<le> MAX_SESSIONS \<longrightarrow>
      map_of (session_timestamps g) sid3 = Some ts3 \<longrightarrow>
      now - ts3 \<le> timedelta_minutes 10 \<longrightarrow>
      map_of (session_store g) sid3 = Some st3 \<longrightarrow>
      \<not> (quiz_session_active st3 \<and> is_session_expired now st3) \<longrightarrow>
        map_of (session_store (cleanup_expired_sessions now g)) sid3 = Some st3 \<and>
        map_of (session_timestamps (cleanup_expired_sessions now g)) sid3 = Some ts3)"
proof (intro conjI impI)
  assume ts: "map_of (session_timestamps g) sid1 = Some ts1"
    and idle: "now - ts1 > timedelta_minutes 10"
  have "(sid1, ts1) \<in> set (session_timestamps g)" using ts by (rule map_of_SomeD)
  moreover have "session_is_expired now g (sid1, ts1)"
    using idle by (simp add: session_is_expired_def API_SESSION_TIMEOUT_MINUTES_def)
  ultimately have "sid1 \<in> set (expired_sessions now g)"
    by (force simp: expired_sessions_def)
  then show "\<not> dict_in sid1 (session_store (cleanup_expired_sessions now g))"
    and "\<not> dict_in sid1 (session_timestamps (cleanup_expired_sessions now g))"
    by (rule expired_absent)+
next
  assume ts: "map_of (session_timestamps g) sid2 = Some ts2"
    and st: "map_of (session_store g) sid2 = Some st2"
    and act: "quiz_session_active st2" and ex: "is_session_expired now st2"
  have "(sid2, ts2) \<in> set (session_timestamps g)" using ts by (rule map_of_SomeD)
  moreover have "session_is_expired now g (sid2, ts2)"
    using st act ex by (simp add: session_is_expired_def)
  ultimately have "sid2 \<in> set (expired_sessions now g)"
    by (force simp: expired_sessions_def)
  then show "\<not> dict_in sid2 (session_store (cleanup_expired_sessions now g))"
    and "\<not> dict_in sid2 (session_timestamps (cleanup_expired_sessions now g))"
    by (rule expired_absent)+
next
  assume d: "distinct (map fst (session_timestamps g))"
    and cap: "length (filter (\<lambda>p. fst p \<notin> set (expired_sessions now g)) (session_store g))
        \<le> MAX_SESSIONS"
    and ts: "map_of (session_timestamps g) sid3 = Some ts3"
    and idle: "now - ts3 \<le> timedelta_minutes 10"
    and st: "map_of (session_store g) sid3 = Some st3"
    and quiz: "\<not> (quiz_session_active st3 \<and> is_session_expired now st3)"
  have "\<not> session_is_expired now g (sid3, ts3)"
    using idle st quiz by (auto simp: session_is_expired_def API_SESSION_TIMEOUT_MINUTES_def)
  with d ts have keep: "sid3 \<notin> set (expired_sessions now g)" by (rule not_expired_item)
  have c: "cleanup_expired_sessions now g = fold pop_session (expired_sessions now g) g"
    using cap by (rule cleanup_within_capacity)
  show "map_of (session_store (cleanup_expired_sessions now g)) sid3 = Some st3"
    unfolding c fold_pop_session_store
    using keep st by (simp add: map_of_filter_keep)
  show "map_of (session_timestamps (cleanup_expired_sessions now g)) sid3 = Some ts3"
    unfolding c fold_pop_session_timestamps
    using keep ts by (simp add: map_of_filter_keep)
qed

theorem sweep_semantics_witness:
  "map_of (session_timestamps sweep_demo) (ascii ''S1'') = Some (seconds 0)
   \<and> seconds 660 - seconds 0 > timedelta_minutes 10
   \<and> map_of (session_timestamps sweep_demo) (ascii ''S2'') = Some (seconds 600)
   \<and> map_of (session_store sweep_demo) (ascii ''S2'') = Some quiz_started_at_0
   \<and> quiz_session_active quiz_started_at_0
   \<and> is_session_expired (seconds 660) quiz_started_at_0
   \<and> distinct (map fst (session_timestamps sweep_demo))
   \<and> length (filter (\<lambda>p. fst p \<notin> set (expired_sessions (seconds 660) sweep_demo))
                (session_store sweep_demo)) \<le> MAX_SESSIONS
   \<and> map_of (session_timestamps sweep_demo) (ascii ''S3'') = Some (seconds 60)
   \<and> seconds 660 - seconds 60 \<le> timedelta_minutes 10
   \<and> map_of (session_store sweep_demo) (ascii ''S3'') = Some default_stock_agent_state
   \<and> \<not> (quiz_session_active default_stock_agent_state
        \<and> is_session_expired (seconds 660) default_stock_agent_state)
   \<and> \<not> dict_in (ascii ''S1'') (session_store (cleanup_expired_sessions (seconds 660) sweep_demo))
   \<and> \<not> dict_in (ascii ''S1'')
        (session_timestamps (cleanup_expired_sessions (seconds 660) sweep_demo))
   \<and> \<not> dict_in (ascii ''S2'') (session_store (cleanup_expired_sessions (seconds 660) sweep_demo))
   \<and> \<not> dict_in (ascii ''S2'')
        (session_timestamps (cleanup_expired_sessions (seconds 660) sweep_demo))
   \<and> map_of (session_store (cleanup_expired_sessions (seconds 660) sweep_demo)) (ascii ''S3'')
        = Some default_stock_agent_state
   \<and> map_of (session_timestamps (cleanup_expired_sessions (seconds 660) sweep_demo))
        (ascii ''S3'') = Some (seconds 60)"
proof -
  have h1: "map_of (session_timestamps sweep_demo) (ascii ''S1'') = Some (seconds 0)"
    by (simp add: sweep_demo_def ascii_def)
  have h2: "seconds 660 - seconds 0 > timedelta_minutes 10"
    by (simp add: seconds_def timedelta_minutes_def)
  have h3: "map_of (session_timestamps sweep_demo) (ascii ''S2'') = Some (seconds 600)"
    by (simp add: sweep_demo_def ascii_def)
  have h4: "map_of (session_store sweep_demo) (ascii ''S2'') = Some quiz_started_at_0"
    by (simp add: sweep_demo_def ascii_def)
  have h5: "quiz_session_active quiz_started_at_0"
    by (simp add: quiz_started_at_0_def)
  have h6: "is_session_expired (seconds 660) quiz_started_at_0"
    by (simp add: is_session_expired_def is_session_active_def quiz_started_at_0_def
        seconds_def timedelta_minutes_def SESSION_TIMEOUT_MINUTES_def)
  have h7: "distinct (map fst (session_timestamps sweep_demo))"
    by (simp add: sweep_demo_def ascii_def)
  have "length (filter (\<lambda>p. fst p \<notin> set (expired_sessions (seconds 660) sweep_demo))
                (session_store sweep_demo)) \<le> length (session_store sweep_demo)"
    by (rule length_filter_le)
  then have h8: "length (filter (\<lambda>p. fst p \<notin> set (expired_sessions (seconds 660) sweep_demo))
                (session_store sweep_demo)) \<le> MAX_SESSIONS"
    by (simp add: sweep_demo_def MAX_SESSIONS_def)
  have h9: "map_of (session_timestamps sweep_demo) (ascii ''S3'') = Some (seconds 60)"
    by (simp add: sweep_demo_def ascii_def)
  have h10: "seconds 660 - seconds 60 \<le> timedelta_minutes 10"
    by (simp add: seconds_def timedelta_minutes_def)
  have h11: "map_of (session_store sweep_demo) (ascii ''S3'') = Some default_stock_agent_state"
    by (simp add: sweep_demo_def ascii_def)
  have h12: "\<not> (quiz_session_active default_stock_agent_state
        \<and> is_session_expired (seconds 660) default_stock_agent_state)"
    by (simp add: default_stock_agent_state_def)
  from sweep_semantics[of sweep_demo "ascii ''S1''" "seconds 0" "seconds 660"
      "ascii ''S2''" "seconds 600" quiz_started_at_0
      "ascii ''S3''" "seconds 60" default_stock_agent_state]
    h1 h2 h3 h4 h5 h6 h7 h8 h9 h10 h11 h12
  show ?thesis by blast
qed

text \<open>
  C6, as claimed, fails on a store that holds more than \<open>MAX_SESSIONS\<close> records.
  In the store left by six requests one second apart, \<open>s1\<close> was last active at
  0 s and carries no quiz session.  At the sweep of the instant 6 s it has been idle
  for six seconds and no session is expired, yet the sweep removes it from both
  dictionaries.
\<close>

theorem sweep_semantics_counterexample:
  "map_of (session_timestamps six_sessions) (ascii ''s1'') = Some (seconds 0)
   \<and> seconds 6 - seconds 0 \<le> timedelta_minutes 10
   \<and> map_of (session_store six_sessions) (ascii ''s1'') = Some default_stock_agent_state
   \<and> \<not> quiz_session_active default_stock_agent_state
   \<and> expired_sessions (seconds 6) six_sessions = []
   \<and> \<not> dict_in (ascii ''s1'') (session_store (cleanup_expired_sessions (seconds 6) six_sessions))
   \<and> \<not> dict_in (ascii ''s1'')
        (session_timestamps (cleanup_expired_sessions (seconds 6) six_sessions))"
  by code_simp

text \<open>
  C1 at a concrete input: after the sixth of six distinct identifiers has asked for
  its session, the store holds six records, the first one among them.  The sweep
  of \<open>get_session_state\<close> runs before the insertion, so the record above the
  capacity stays until the next sweep.
\<close>

theorem six_sessions_stored:
  "length (session_store six_sessions) = 6
   \<and> length (session_store six_sessions) > MAX_SESSIONS
   \<and> dict_in (ascii ''s1'') (session_store six_sessions)
   \<and> length (session_store (cleanup_expired_sessions (seconds 6) six_sessions)) = 5
   \<and> \<not> dict_in (ascii ''s1'')
        (session_store (cleanup_expired_sessions (seconds 6) six_sessions))"
  by code_simp

section \<open>Properties of classification and clarification\<close>


lemma ascii_inj: "ascii s = ascii t \<longleftrightarrow> s = t"
  unfolding ascii_def by (rule inj_map_eq_map) (simp add: inj_def)

lemma decision_cases:
  "ambiguity_decision a = ascii ''ASK_USER'' \<longleftrightarrow>
     completeness_of a = JStr (ascii ''PARTIAL'')
     \<and> missing_type_of a \<in> {JStr (ascii ''STOCK_NAME''), JStr (ascii ''SPECIFIC_DATE''),
                               JStr (ascii ''TIME_PERIOD'')}
     \<and> \<not> (missing_type_of a = JStr (ascii ''SPECIFIC_DATE'') \<and> truthy (has_relative_time_of a))"
  by (auto simp: ambiguity_decision_def Let_def ascii_inj)

lemma run_graph_END: "run_graph n nodes END state w = (Inr state, w)"
  by (cases n) simp_all


lemmas node_names =
  PREPROCESS_def CLASSIFY_QUERY_def AMBIGUOUS_QUERY_node_def FETCH_STOCK_DATA_node_def
  CONDITIONAL_STOCK_DATA_node_def SIGNAL_STOCK_DATA_node_def QUIZ_STOCK_DATA_def
  QUIZ_GENERATE_RESPONSE_def GENERATE_RESPONSE_def END_def

lemma graph_nodes_lookup:
  "map_of (graph_nodes A now) PREPROCESS = Some (preprocess A)"
  "map_of (graph_nodes A now) CLASSIFY_QUERY =
     Some (\<lambda>state w. (classify_query (agent_unicode A) (classify_query_chain A) state, w))"
  "map_of (graph_nodes A now) AMBIGUOUS_QUERY_node =
     Some (\<lambda>state w. (clarify_question_node (clarify_collaborators A) state, w))"
  "map_of (graph_nodes A now) FETCH_STOCK_DATA_node = Some (fetch_stock_data A)"
  "map_of (graph_nodes A now) GENERATE_RESPONSE = Some (generate_response A)"
  by (simp_all add: graph_nodes_def node_names ascii_def)



lemma next_node_ambiguous:
  "next_node AMBIGUOUS_QUERY_node s =
     (if query_category s = ascii ''ask_clarification'' then Inr END else Inr CLASSIFY_QUERY)"
  by (simp add: next_node_def branch_def ambiguous_query_branches_def
      ambiguous_query_with_path_def ASK_CLARIFICATION_def node_names ascii_def)

lemma node_not_END:
  "PREPROCESS \<noteq> END" "CLASSIFY_QUERY \<noteq> END" "AMBIGUOUS_QUERY_node \<noteq> END"
  "FETCH_STOCK_DATA_node \<noteq> END" "GENERATE_RESPONSE \<noteq> END"
  by (simp_all add: node_names ascii_def)





text \<open>
  C7: let \<open>a\<close> be the completeness analysis of a non-empty query.  With completeness
  \<open>COMPLETE\<close> or \<open>AMBIGUOUS\<close> the node self-clarifies: it asks for a rewriting of
  the query, raises if that raises, and otherwise records the clarification and
  replaces the query.  With completeness \<open>PARTIAL\<close> and missing type \<open>STOCK_NAME\<close>,
  \<open>SPECIFIC_DATE\<close> or \<open>TIME_PERIOD\<close> it asks the user: the returned state has the
  generated follow-up question as its response and the category
  \<open>ask_clarification\<close>, the edge of the graph leads to \<open>END\<close>, and a run of the graph
  from the node ends with that state; unless the missing type is \<open>SPECIFIC_DATE\<close>
  and a relative-time expression was detected: then the node self-clarifies.  A
  self-clarification that returns, entered with the category \<open>ambiguous_query\<close>,
  leaves a clarification record and is routed back to \<open>classify_query\<close>.
\<close>

theorem ambiguity_decision_rule:
  assumes q: "query state \<noteq> []"
    and a: "a = analyze_information_with_llm E (query state) (context_map state)"
    and ask: "ask_user =
        state\<lparr> response := generate_clarification_question E (query state) (context_map state),
               query_category := ascii ''ask_clarification'' \<rparr>"
    and self: "self_clarify =
        (case clarify_vague_question E (query state) of
           Inl e \<Rightarrow> Inl e
         | Inr clarified \<Rightarrow>
             Inr (state
               \<lparr> clarification_info := Some
                   \<lparr> original_query = query state,
                     clarified_query =
                       dict_get clarified (ascii ''specific_question'') (query state),
                     start_date = dict_get clarified (ascii ''start_date'') [],
                     end_date = dict_get clarified (ascii ''end_date'') [],
                     market_scope = dict_get clarified (ascii ''market_scope'') [],
                     primary_criteria = dict_get clarified (ascii ''primary_criteria'') [],
                     secondary_criteria = dict_get clarified (ascii ''secondary_criteria'') [] \<rparr>,
                 query := dict_get clarified (ascii ''specific_question'') (query state) \<rparr>))"
    and env: "clarify_collaborators A = E"
  shows
    "(completeness_of a = JStr (ascii ''COMPLETE'') \<longrightarrow>
        clarify_question_node E state = self_clarify)
     \<and> (completeness_of a = JStr (ascii ''AMBIGUOUS'') \<longrightarrow>
        clarify_question_node E state = self_clarify)
     \<and> (completeness_of a = JStr (ascii ''PARTIAL'') \<longrightarrow>
        missing_type_of a \<in> {JStr (ascii ''STOCK_NAME''), JStr (ascii ''SPECIFIC_DATE''),
                               JStr (ascii ''TIME_PERIOD'')} \<longrightarrow>
        \<not> (missing_type_of a = JStr (ascii ''SPECIFIC_DATE'') \<and> truthy (has_relative_time_of a)) \<longrightarrow>
        clarify_question_node E state = Inr ask_user
        \<and> ambiguous_query_with_path ask_user = ASK_CLARIFICATION
        \<and> next_node AMBIGUOUS_QUERY_node ask_user = Inr END
        \<and> run_graph (Suc n) (graph_nodes A now) AMBIGUOUS_QUERY_node state w = (Inr ask_user, w))
     \<and> (completeness_of a = JStr (ascii ''PARTIAL'') \<longrightarrow>
        missing_type_of a = JStr (ascii ''SPECIFIC_DATE'') \<longrightarrow>
        truthy (has_relative_time_of a) \<longrightarrow>
        clarify_question_node E state = self_clarify)
     \<and> (self_clarify = Inr state' \<longrightarrow>
        query_category state = ascii ''ambiguous_query'' \<longrightarrow>
        clarification_info state' \<noteq> None
        \<and> ambiguous_query_with_path state' = CLASSIFY_QUERY
        \<and> next_node AMBIGUOUS_QUERY_node state' = Inr CLASSIFY_QUERY)"
proof -
  have sc: "self_clarify_branch E state = self_clarify"
    unfolding self by (simp add: self_clarify_branch_def Let_def split: sum.splits)
  have au: "ask_user_branch E state = ask_user"
    unfolding ask by (simp add: ask_user_branch_def)
  have node: "clarify_question_node E state =
      (if ambiguity_decision a = ascii ''ASK_USER'' then Inr ask_user else self_clarify)"
    using q by (simp add: clarify_question_node_def Let_def analyze_ambiguity_type_def a sc au)
  have cat: "query_category ask_user = ascii ''ask_clarification''"
    unfolding ask by simp
  have path: "ambiguous_query_with_path ask_user = ASK_CLARIFICATION"
    using cat by (simp add: ambiguous_query_with_path_def)
  have nxt: "next_node AMBIGUOUS_QUERY_node ask_user = Inr END"
    using cat by (simp add: next_node_ambiguous)
  have run: "clarify_question_node E state = Inr ask_user \<Longrightarrow>
      run_graph (Suc n) (graph_nodes A now) AMBIGUOUS_QUERY_node state w = (Inr ask_user, w)"
    using nxt env by (simp add: node_not_END graph_nodes_lookup run_graph_END)
  have again: "self_clarify = Inr state' \<Longrightarrow>
      query_category state = ascii ''ambiguous_query'' \<Longrightarrow>
      clarification_info state' \<noteq> None \<and> ambiguous_query_with_path state' = CLASSIFY_QUERY
      \<and> next_node AMBIGUOUS_QUERY_node state' = Inr CLASSIFY_QUERY"
    unfolding self
    by (auto simp: ambiguous_query_with_path_def next_node_ambiguous ascii_inj
        split: sum.splits)
  show ?thesis
    unfolding node decision_cases using path nxt run again
    by (auto simp: ascii_inj node decision_cases)
qed

lemma demo_analysis:
  "analyze_information_with_llm (demo_env a) (query vague_state) (context_map vague_state) = a"
  by (simp add: analyze_information_with_llm_def demo_env_def)

lemma vague_query: "query vague_state \<noteq> []"
  by (simp add: vague_state_def ascii_def)

lemma demo_self_clarify:
  "(case clarify_vague_question (demo_env a) (query vague_state) of
      Inl e \<Rightarrow> Inl e
    | Inr clarified \<Rightarrow>
        Inr (vague_state
          \<lparr> clarification_info := Some
              \<lparr> original_query = query vague_state,
                clarified_query =
                  dict_get clarified (ascii ''specific_question'') (query vague_state),
                start_date = dict_get clarified (ascii ''start_date'') [],
                end_date = dict_get clarified (ascii ''end_date'') [],
                market_scope = dict_get clarified (ascii ''market_scope'') [],
                primary_criteria = dict_get clarified (ascii ''primary_criteria'') [],
                secondary_criteria = dict_get clarified (ascii ''secondary_criteria'') [] \<rparr>,
            query := dict_get clarified (ascii ''specific_question'') (query vague_state) \<rparr>))
   = Inr clarified_state"
  by (simp add: demo_env_def vague_state_def clarified_state_def dict_get_def ascii_inj)

lemma demo_ask_user:
  "vague_state
     \<lparr> response :=
         generate_clarification_question (demo_env a) (query vague_state)
           (context_map vague_state),
       query_category := ascii ''ask_clarification'' \<rparr>
   = asked_state"
  by (simp add: demo_env_def asked_state_def)

theorem ambiguity_decision_rule_witness:
  "clarify_question_node (demo_env analysis_complete) vague_state = Inr clarified_state
   \<and> clarify_question_node (demo_env analysis_ambiguous) vague_state = Inr clarified_state
   \<and> clarify_question_node (demo_env analysis_no_stock) vague_state = Inr asked_state
   \<and> response asked_state = ascii ''Which stock do you mean?''
   \<and> next_node AMBIGUOUS_QUERY_node asked_state = Inr END
   \<and> run_graph 1
        (graph_nodes (demo_agent\<lparr>clarify_collaborators := demo_env analysis_no_stock\<rparr>)
           (seconds 0))
        AMBIGUOUS_QUERY_node vague_state []
       = (Inr asked_state, [])
   \<and> clarify_question_node (demo_env analysis_relative_date) vague_state = Inr clarified_state
   \<and> clarification_info clarified_state \<noteq> None
   \<and> next_node AMBIGUOUS_QUERY_node clarified_state = Inr CLASSIFY_QUERY"
proof -
  have c1: "completeness_of analysis_complete = JStr (ascii ''COMPLETE'')"
    by (simp add: completeness_of_def analysis_complete_def dict_get_def)
  have c2: "completeness_of analysis_ambiguous = JStr (ascii ''AMBIGUOUS'')"
    by (simp add: completeness_of_def analysis_ambiguous_def dict_get_def)
  have c3: "completeness_of analysis_no_stock = JStr (ascii ''PARTIAL'')"
    "missing_type_of analysis_no_stock = JStr (ascii ''STOCK_NAME'')"
    by (simp_all add: completeness_of_def missing_type_of_def analysis_no_stock_def dict_get_def
        ascii_inj)
  have c4: "completeness_of analysis_relative_date = JStr (ascii ''PARTIAL'')"
    "missing_type_of analysis_relative_date = JStr (ascii ''SPECIFIC_DATE'')"
    "truthy (has_relative_time_of analysis_relative_date)"
    by (simp_all add: completeness_of_def missing_type_of_def has_relative_time_of_def
        analysis_relative_date_def dict_get_def ascii_inj)
  have cat: "query_category vague_state = ascii ''ambiguous_query''"
    by (simp add: vague_state_def)
  have env: "\<And>a. clarify_collaborators (demo_agent\<lparr>clarify_collaborators := demo_env a\<rparr>)
      = demo_env a"
    by simp
  note rule = ambiguity_decision_rule[OF vague_query demo_analysis[symmetric] refl refl env,
      where n = 0 and now = "seconds 0" and w = "[]" and state' = clarified_state,
      unfolded demo_self_clarify demo_ask_user]
  have r1: "clarify_question_node (demo_env analysis_complete) vague_state = Inr clarified_state"
    using rule[of analysis_complete] c1 by simp
  have r2: "clarify_question_node (demo_env analysis_ambiguous) vague_state = Inr clarified_state"
    using rule[of analysis_ambiguous] c2 by simp
  have r3: "clarify_question_node (demo_env analysis_no_stock) vague_state = Inr asked_state
     \<and> next_node AMBIGUOUS_QUERY_node asked_state = Inr END
     \<and> run_graph 1
          (graph_nodes (demo_agent\<lparr>clarify_collaborators := demo_env analysis_no_stock\<rparr>)
             (seconds 0))
          AMBIGUOUS_QUERY_node vague_state []
         = (Inr asked_state, [])"
    using rule[of analysis_no_stock] c3 by (simp add: ascii_inj)
  have r4: "clarify_question_node (demo_env analysis_relative_date) vague_state
       = Inr clarified_state"
    using rule[of analysis_relative_date] c4 by simp
  have r5: "clarification_info clarified_state \<noteq> None
      \<and> next_node AMBIGUOUS_QUERY_node clarified_state = Inr CLASSIFY_QUERY"
    using rule[of analysis_complete] cat by simp
  have r6: "response asked_state = ascii ''Which stock do you mean?''"
    by (simp add: asked_state_def)
  from r1 r2 r3 r4 r5 r6 show ?thesis by simp
qed

section \<open>Properties of the tool-calling protocol\<close>

lemma str_startswith_prefix: "str_startswith n h \<longleftrightarrow> prefix n h"
  by (induction n h rule: str_startswith.induct) auto

lemma str_contains_sublist: "str_contains n h \<longleftrightarrow> sublist n h"
  by (induction h) (auto simp: str_startswith_prefix sublist_Cons_right)

lemma sublist_str_join:
  "x \<in> set xs \<Longrightarrow> sublist x (str_join sep xs)"
proof (induction sep xs rule: str_join.induct)
  case (1 sep)
  then show ?case by simp
next
  case (2 sep y)
  then show ?case by simp
next
  case (3 sep y z zs)
  show ?case
  proof (cases "x = y")
    case True
    then show ?thesis by (simp add: sublist_append_rightI)
  next
    case False
    with 3 have "sublist x (str_join sep (z # zs))" by simp
    then show ?thesis by (simp add: sublist_append)
  qed
qed

lemma failed_entry_in_text:
  assumes "r \<in> set rs" "\<not> call_success r"
  shows "str_contains (failed_entry R r) (tool_failure_text R rs)"
proof -
  have "failed_entry R r \<in> set (map (failed_entry R) (filter (\<lambda>r. \<not> call_success r) rs))"
    using assms by simp
  then have "sublist (failed_entry R r)
      (str_join (ascii ''; '') (map (failed_entry R) (filter (\<lambda>r. \<not> call_success r) rs)))"
    by (rule sublist_str_join)
  then show ?thesis
    unfolding str_contains_sublist tool_failure_text_def by (simp add: sublist_append)
qed

lemma execute_all_length:
  "fst (execute_all R tf calls) = Inr rs \<Longrightarrow> length rs = length calls"
proof (induction calls arbitrary: rs)
  case Nil
  then show ?case by simp
next
  case (Cons c cs)
  then show ?case
    by (auto split: prod.splits sum.splits)
qed

lemma tool_messages_ok:
  "(\<And>r. r \<in> set rs \<Longrightarrow> \<exists>t. json_dumps R (result r) = Inr t) \<Longrightarrow> \<exists>tms. tool_messages R rs = Inr tms"
proof (induction rs)
  case Nil
  then show ?case by simp
next
  case (Cons r rs)
  then obtain t where t: "json_dumps R (result r) = Inr t" by auto
  from Cons obtain tms where "tool_messages R rs = Inr tms" by auto
  with t show ?case by (simp add: and_then_def)
qed

lemma handle_response_requests:
  "completion_requests (snd (handle_response R tf resp w)) = completion_requests w"
  by (auto simp: handle_response_def Let_def split: sum.splits option.splits bool.splits prod.splits)

lemma handle_response_no_message:
  "select_message resp = Inr None \<Longrightarrow>
     handle_response R tf resp w =
       (\<lparr> success = False, error = Some (ascii ''Invalid API response''),
          tool_results = [], final_response = None \<rparr>, w)"
  by (simp add: handle_response_def)

lemma handle_response_direct:
  assumes "select_message resp = Inr (Some (JObj m))"
    and "\<not> dict_in (ascii ''toolCalls'') m" and "\<not> dict_in (ascii ''tool_calls'') m"
  shows "handle_response R tf resp w =
    (\<lparr> success = True, error = None, tool_results = [],
       final_response = Some (dict_get m (ascii ''content'') (JStr [])) \<rparr>, w)"
  using assms by (simp add: handle_response_def no_tool_calls_def py_in_def and_then_def py_get_def)

lemma handle_response_tools:
  assumes "select_message resp = Inr (Some message)"
    and "no_tool_calls message = Inr False"
    and "requested_tool_calls message = Inr calls"
    and "fst (execute_all R tf calls) = Inr rs"
    and "tool_messages R rs = Inr tms"
  shows "fst (handle_response R tf resp w) =
    (if list_all call_success rs
     then \<lparr> success = True, error = None, tool_results = rs, final_response = Some JNull \<rparr>
     else \<lparr> success = False, error = Some (tool_failure_text R rs), tool_results = rs,
            final_response = None \<rparr>)"
  using assms by (cases "execute_all R tf calls") (simp add: handle_response_def Let_def)

text \<open>
  When \<open>json.dumps\<close> raises on a payload while the tool messages are built, the
  round is reported as failed, with the text of the exception and an empty result
  list, whatever the calls returned.
\<close>

lemma round_with_unserialisable_payload:
  assumes "gateway (sent_messages im fb) tools key = Inr resp"
    and "select_message resp = Inr (Some message)"
    and "no_tool_calls message = Inr False"
    and "requested_tool_calls message = Inr calls"
    and "fst (execute_all R tf calls) = Inr rs"
    and "tool_messages R rs = Inl e"
  shows "fst (process_function_calling R gateway tf im tools fb key w) =
    \<lparr> success = False, error = Some (str_of_exn R e), tool_results = [],
      final_response = None \<rparr>"
  using assms
  by (cases "execute_all R tf calls")
    (simp add: process_function_calling_def call_clova_function_calling_def
      handle_response_def Let_def exception_result_def)

text \<open>
  C3, amended.  Take a round in which the response carries a message that requests
  tool calls, every requested call is executed (\<open>execute_tool\<close> returns an entry for
  it) and every entry's payload can be serialised by \<open>json.dumps\<close>.  Then there is
  one entry per requested call; the round's success flag is the conjunction of the
  entries' flags; the result list holds all entries, the successful ones marked
  successful; and when some call failed the error text is the failure text, which
  contains \<open>"<function_name>: <result>"\<close> for every failed entry.
\<close>

theorem tool_round_aggregation:
  assumes gw: "gateway (sent_messages im fb) tools key = Inr resp"
    and msg: "select_message resp = Inr (Some message)"
    and req: "no_tool_calls message = Inr False"
    and calls: "requested_tool_calls message = Inr calls"
    and exec: "fst (execute_all R tf calls) = Inr rs"
    and ser: "\<forall>r \<in> set rs. \<exists>t. json_dumps R (result r) = Inr t"
    and out: "out = fst (process_function_calling R gateway tf im tools fb key w)"
  shows "length rs = length calls
     \<and> success out = list_all call_success rs
     \<and> tool_results out = rs
     \<and> (\<not> list_all call_success rs \<longrightarrow> error out = Some (tool_failure_text R rs))
     \<and> (\<forall>r \<in> set rs. \<not> call_success r \<longrightarrow>
           str_contains (fstr R (function_name r) @ ascii '': '' @ fstr_payload R (result r))
             (tool_failure_text R rs))
     \<and> (\<forall>r \<in> set rs. call_success r \<longrightarrow> r \<in> set (tool_results out))"
proof -
  from ser obtain tms where tms: "tool_messages R rs = Inr tms"
    using tool_messages_ok[of rs R] by blast
  have o: "out =
    (if list_all call_success rs
     then \<lparr> success = True, error = None, tool_results = rs, final_response = Some JNull \<rparr>
     else \<lparr> success = False, error = Some (tool_failure_text R rs), tool_results = rs,
            final_response = None \<rparr>)"
    unfolding out process_function_calling_def call_clova_function_calling_def Let_def
    using gw handle_response_tools[OF msg req calls exec tms] by simp
  have len: "length rs = length calls" using exec by (rule execute_all_length)
  have entries: "\<forall>r \<in> set rs. \<not> call_success r \<longrightarrow>
           str_contains (fstr R (function_name r) @ ascii '': '' @ fstr_payload R (result r))
             (tool_failure_text R rs)"
    using failed_entry_in_text[of _ rs R] by (auto simp: failed_entry_def)
  from o len entries show ?thesis by simp
qed

lemma handle_response_empty_calls:
  assumes "select_message resp = Inr (Some (JObj m))"
    and "dict_in (ascii ''toolCalls'') m \<or> dict_in (ascii ''tool_calls'') m"
    and "dict_get m (ascii ''toolCalls'') (dict_get m (ascii ''tool_calls'') (JArr [])) = JArr []"
  shows "handle_response R tf resp w =
    (\<lparr> success = True, error = None, tool_results = [], final_response = Some JNull \<rparr>, w)"
proof -
  have n: "no_tool_calls (JObj m) = Inr False"
    using assms(2) by (auto simp: no_tool_calls_def py_in_def and_then_def)
  have r: "requested_tool_calls (JObj m) = Inr []"
    using assms(3) by (simp add: requested_tool_calls_def py_get_def and_then_def py_iter_def)
  show ?thesis
    using assms(1) n r by (simp add: handle_response_def Let_def)
qed

text \<open>
  C4, amended.  On every input the protocol sends exactly one request to the
  completion service: the world holds one request more (the transcript with the
  optional feedback turn), whatever the service answers and whatever follows.  When
  the response carries a message (a dictionary) that has neither the key
  \<open>toolCalls\<close> nor the key \<open>tool_calls\<close>, the protocol reports success with the
  message's \<open>content\<close> (the empty string when there is none) and an empty result
  list, without invoking a tool.  When the message has one of the two keys and the
  list of requested calls is empty, the protocol reports success with an empty
  result list and no answer (\<open>final_response\<close> is \<open>None\<close>), whatever the content.
\<close>

theorem single_completion_round:
  "completion_requests (snd (process_function_calling R gateway tf im tools fb key w))
     = completion_requests w @ [sent_messages im fb]
   \<and> (gateway (sent_messages im fb) tools key = Inr resp \<longrightarrow>
      select_message resp = Inr (Some (JObj m)) \<longrightarrow>
      \<not> dict_in (ascii ''toolCalls'') m \<longrightarrow> \<not> dict_in (ascii ''tool_calls'') m \<longrightarrow>
        process_function_calling R gateway tf im tools fb key w =
          (\<lparr> success = True, error = None, tool_results = [],
             final_response = Some (dict_get m (ascii ''content'') (JStr [])) \<rparr>,
           w\<lparr>completion_requests := completion_requests w @ [sent_messages im fb]\<rparr>))
   \<and> (gateway (sent_messages im fb) tools key = Inr resp \<longrightarrow>
      select_message resp = Inr (Some (JObj m)) \<longrightarrow>
      dict_in (ascii ''toolCalls'') m \<or> dict_in (ascii ''tool_calls'') m \<longrightarrow>
      dict_get m (ascii ''toolCalls'') (dict_get m (ascii ''tool_calls'') (JArr [])) = JArr [] \<longrightarrow>
        process_function_calling R gateway tf im tools fb key w =
          (\<lparr> success = True, error = None, tool_results = [], final_response = Some JNull \<rparr>,
           w\<lparr>completion_requests := completion_requests w @ [sent_messages im fb]\<rparr>))"
proof (intro conjI impI)
  show "completion_requests (snd (process_function_calling R gateway tf im tools fb key w))
     = completion_requests w @ [sent_messages im fb]"
    by (cases "gateway (sent_messages im fb) tools key")
      (simp_all add: process_function_calling_def call_clova_function_calling_def Let_def
        handle_response_requests)
next
  assume "gateway (sent_messages im fb) tools key = Inr resp"
    and "select_message resp = Inr (Some (JObj m))"
    and "\<not> dict_in (ascii ''toolCalls'') m" and "\<not> dict_in (ascii ''tool_calls'') m"
  then show "process_function_calling R gateway tf im tools fb key w =
          (\<lparr> success = True, error = None, tool_results = [],
             final_response = Some (dict_get m (ascii ''content'') (JStr [])) \<rparr>,
           w\<lparr>completion_requests := completion_requests w @ [sent_messages im fb]\<rparr>)"
    by (simp add: process_function_calling_def call_clova_function_calling_def Let_def
        handle_response_direct)
next
  assume "gateway (sent_messages im fb) tools key = Inr resp"
    and "select_message resp = Inr (Some (JObj m))"
    and "dict_in (ascii ''toolCalls'') m \<or> dict_in (ascii ''tool_calls'') m"
    and "dict_get m (ascii ''toolCalls'') (dict_get m (ascii ''tool_calls'') (JArr [])) = JArr []"
  then show "process_function_calling R gateway tf im tools fb key w =
          (\<lparr> success = True, error = None, tool_results = [], final_response = Some JNull \<rparr>,
           w\<lparr>completion_requests := completion_requests w @ [sent_messages im fb]\<rparr>)"
    by (simp add: process_function_calling_def call_clova_function_calling_def Let_def
        handle_response_empty_calls)
qed

lemma select_message_no_message:
  assumes "case map_of d (ascii ''result'') of
             None \<Rightarrow> True | Some r \<Rightarrow> py_in (ascii ''message'') r = Inr False"
    and "case map_of d (ascii ''choices'') of None \<Rightarrow> True | Some c \<Rightarrow> \<not> truthy c"
  shows "select_message (JObj d) = Inr None"
proof -
  have k: "\<And>k. dict_in k d \<longleftrightarrow> map_of d k \<noteq> None"
    by (simp add: dict_in_def map_of_eq_None_iff)
  show ?thesis
    using assms
    by (auto simp: select_message_def and_then_def py_in_def[of _ "JObj d"] py_getitem_def k
        split: option.splits)
qed

text \<open>
  C5, amended.  A response dictionary that has no \<open>message\<close> under \<open>result\<close> and no
  non-empty \<open>choices\<close> yields no message.  On every response that yields no message
  the protocol reports the failure \<open>Invalid API response\<close> at once: the result list
  is empty, no tool is invoked, and the error text is none of the texts a tool
  failure produces.
\<close>

theorem malformed_response_failure:
  "((case map_of d (ascii ''result'') of
       None \<Rightarrow> True | Some r \<Rightarrow> py_in (ascii ''message'') r = Inr False) \<longrightarrow>
    (case map_of d (ascii ''choices'') of None \<Rightarrow> True | Some c \<Rightarrow> \<not> truthy c) \<longrightarrow>
      select_message (JObj d) = Inr None)
   \<and> (gateway (sent_messages im fb) tools key = Inr resp \<longrightarrow>
      select_message resp = Inr None \<longrightarrow>
        process_function_calling R gateway tf im tools fb key w =
          (\<lparr> success = False, error = Some (ascii ''Invalid API response''),
             tool_results = [], final_response = None \<rparr>,
           w\<lparr>completion_requests := completion_requests w @ [sent_messages im fb]\<rparr>)
        \<and> ascii ''Invalid API response'' \<noteq> tool_failure_text R rs)"
proof (intro conjI impI)
  assume "case map_of d (ascii ''result'') of
             None \<Rightarrow> True | Some r \<Rightarrow> py_in (ascii ''message'') r = Inr False"
    and "case map_of d (ascii ''choices'') of None \<Rightarrow> True | Some c \<Rightarrow> \<not> truthy c"
  then show "select_message (JObj d) = Inr None" by (rule select_message_no_message)
next
  assume "gateway (sent_messages im fb) tools key = Inr resp"
    and "select_message resp = Inr None"
  then show "process_function_calling R gateway tf im tools fb key w =
          (\<lparr> success = False, error = Some (ascii ''Invalid API response''),
             tool_results = [], final_response = None \<rparr>,
           w\<lparr>completion_requests := completion_requests w @ [sent_messages im fb]\<rparr>)"
    by (simp add: process_function_calling_def call_clova_function_calling_def Let_def
        handle_response_no_message)
next
  show "ascii ''Invalid API response'' \<noteq> tool_failure_text R rs"
    by (simp add: tool_failure_text_def tool_failure_prefix_def ascii_def)
qed

lemmas protocol_eval =
  select_message_def no_tool_calls_def requested_tool_calls_def and_then_def py_in_def
  py_getitem_def py_getitem0_def py_get_def py_iter_def dict_in_def dict_get_def
  response_with_message_def tool_call_message_def tool_call_of_def gateway_returning_def
  execute_tool_def execute_tool_handler_def registry_lookup_def demo_tools_def demo_runtime_def
  json_dumps_def ascii_def

lemma select_demo: "select_message (response_with_message m) = Inr (Some m)"
  by (simp add: protocol_eval)

lemma exec_three:
  "execute_all demo_runtime demo_tools three_calls =
     (Inr [price_result ''c1'', volume_result, price_result ''c3''],
      [(JStr (ascii ''get_price''), JObj []), (JStr (ascii ''get_volume''), JObj []),
       (JStr (ascii ''get_price''), JObj [])])"
  by (simp add: three_calls_def price_result_def volume_result_def exec_error_text_def
      protocol_eval)

lemma exec_date:
  "fst (execute_all demo_runtime demo_tools [tool_call_of ''c1'' ''get_listing_date''])
     = Inr [listing_date_result]"
  by (simp add: listing_date_result_def protocol_eval)

text \<open>
  C3, as claimed, fails when a payload cannot be serialised.  The model requests one
  call of a tool that returns a date object.  The call is executed and its entry is
  marked successful, but \<open>json.dumps\<close> raises while the tool messages are built;
  the outer \<open>except\<close> clause reports the round as failed, with the text of the
  exception and an empty result list.
\<close>

theorem tool_round_aggregation_counterexample:
  "fst (execute_all demo_runtime demo_tools [tool_call_of ''c1'' ''get_listing_date''])
     = Inr [listing_date_result]
   \<and> call_success listing_date_result
   \<and> fst (process_function_calling demo_runtime
            (gateway_returning
               (response_with_message
                  (tool_call_message [tool_call_of ''c1'' ''get_listing_date''])))
            demo_tools [] JNull [] [] empty_world)
       = \<lparr> success = False, error = Some (ascii ''<exception>''), tool_results = [],
           final_response = None \<rparr>"
proof -
  have "tool_messages demo_runtime [listing_date_result] = Inl TypeError"
    by (simp add: listing_date_result_def json_dumps_def demo_runtime_def and_then_def)
  moreover have "no_tool_calls (tool_call_message [tool_call_of ''c1'' ''get_listing_date''])
      = Inr False"
    by (simp add: protocol_eval)
  moreover have "requested_tool_calls (tool_call_message [tool_call_of ''c1'' ''get_listing_date''])
      = Inr [tool_call_of ''c1'' ''get_listing_date'']"
    by (simp add: no_tool_calls_def requested_tool_calls_def and_then_def py_in_def
        py_get_def py_iter_def dict_in_def dict_get_def tool_call_message_def ascii_def)
  ultimately show ?thesis
    using exec_date
    by (cases "execute_all demo_runtime demo_tools [tool_call_of ''c1'' ''get_listing_date'']")
      (simp add: process_function_calling_def call_clova_function_calling_def handle_response_def
        Let_def select_demo
        gateway_returning_def exception_result_def listing_date_result_def demo_runtime_def)
qed

text \<open>
  Three calls of which the second fails: the round fails, the three entries are
  there, and the failure text names the failed tool with its error text.
\<close>

theorem tool_round_aggregation_witness:
  "success (fst (demo_round (response_with_message (tool_call_message three_calls)))) = False
   \<and> tool_results (fst (demo_round (response_with_message (tool_call_message three_calls))))
       = [price_result ''c1'', volume_result, price_result ''c3'']
   \<and> error (fst (demo_round (response_with_message (tool_call_message three_calls))))
       = Some (tool_failure_text demo_runtime
                 [price_result ''c1'', volume_result, price_result ''c3''])
   \<and> str_contains
        (ascii ''get_volume: '' @ exec_error_text demo_runtime (RaisedBy (ascii ''no data'')))
        (tool_failure_text demo_runtime [price_result ''c1'', volume_result, price_result ''c3''])
   \<and> call_success (price_result ''c1'') \<and> call_success (price_result ''c3'')
   \<and> \<not> call_success volume_result"
proof -
  let ?rs = "[price_result ''c1'', volume_result, price_result ''c3'']"
  let ?m = "tool_call_message three_calls"
  have gw: "gateway_returning (response_with_message ?m) (sent_messages [] []) JNull []
      = Inr (response_with_message ?m)"
    by (simp add: gateway_returning_def)
  have msg: "select_message (response_with_message ?m) = Inr (Some ?m)"
    by (rule select_demo)
  have req: "no_tool_calls ?m = Inr False"
    by (simp add: no_tool_calls_def and_then_def py_in_def dict_in_def tool_call_message_def
        ascii_def)
  have calls: "requested_tool_calls ?m = Inr three_calls"
    by (simp add: requested_tool_calls_def and_then_def py_get_def py_iter_def dict_get_def
        tool_call_message_def ascii_def)
  have exec: "fst (execute_all demo_runtime demo_tools three_calls) = Inr ?rs"
    by (simp add: exec_three)
  have ser: "\<forall>r \<in> set ?rs. \<exists>t. json_dumps demo_runtime (result r) = Inr t"
    by (simp add: price_result_def volume_result_def json_dumps_def demo_runtime_def)
  have out: "fst (demo_round (response_with_message ?m))
      = fst (process_function_calling demo_runtime
               (gateway_returning (response_with_message ?m)) demo_tools [] JNull [] []
               empty_world)"
    by (simp add: demo_round_def)
  have flags: "call_success (price_result ''c1'')" "call_success (price_result ''c3'')"
    "\<not> call_success volume_result"
    by (simp_all add: price_result_def volume_result_def)
  have entry: "fstr demo_runtime (function_name volume_result) @ ascii '': ''
        @ fstr_payload demo_runtime (result volume_result)
      = ascii ''get_volume: '' @ exec_error_text demo_runtime (RaisedBy (ascii ''no data''))"
    by (simp add: volume_result_def fstr_def fstr_payload_def ascii_def)
  from tool_round_aggregation[OF gw msg req calls exec ser out] flags entry
  show ?thesis by auto
qed

text \<open>
  C4, as claimed, fails on a response that requests no tool call but whose message
  carries the key \<open>toolCalls\<close>.  With an empty list the protocol reports success
  without the text answer of the message (\<open>final_response\<close> is \<open>None\<close>); with
  \<open>null\<close> the loop over the requested calls raises and the protocol reports a
  failure.  In both runs one request is sent and no tool is invoked.
\<close>

theorem single_completion_round_counterexample:
  "demo_round (response_with_message
       (JObj [(ascii ''content'', JStr (ascii ''hello'')), (ascii ''toolCalls'', JArr [])]))
     = (\<lparr> success = True, error = None, tool_results = [], final_response = Some JNull \<rparr>,
        \<lparr> completion_requests = [[]], tool_invocations = [] \<rparr>)
   \<and> demo_round (response_with_message
       (JObj [(ascii ''content'', JStr (ascii ''hello'')), (ascii ''toolCalls'', JNull)]))
     = (\<lparr> success = False, error = Some (ascii ''<exception>''), tool_results = [],
          final_response = None \<rparr>,
        \<lparr> completion_requests = [[]], tool_invocations = [] \<rparr>)"
  by (simp add: demo_round_def process_function_calling_def call_clova_function_calling_def
      handle_response_def Let_def sent_messages_def empty_world_def exception_result_def
      protocol_eval)

text \<open>
  A response whose message has only a content: the answer is the content, one
  request is sent, no tool is invoked.
\<close>

theorem single_completion_round_witness:
  "demo_round (response_with_message (JObj [(ascii ''content'', JStr (ascii ''hello''))]))
     = (\<lparr> success = True, error = None, tool_results = [],
          final_response = Some (JStr (ascii ''hello'')) \<rparr>,
        \<lparr> completion_requests = [[]], tool_invocations = [] \<rparr>)"
proof -
  let ?m = "[(ascii ''content'', JStr (ascii ''hello''))]"
  have gw: "gateway_returning (response_with_message (JObj ?m)) (sent_messages [] []) JNull []
      = Inr (response_with_message (JObj ?m))"
    by (simp add: gateway_returning_def)
  have msg: "select_message (response_with_message (JObj ?m)) = Inr (Some (JObj ?m))"
    by (rule select_demo)
  have k: "\<not> dict_in (ascii ''toolCalls'') ?m" "\<not> dict_in (ascii ''tool_calls'') ?m"
    by (simp_all add: dict_in_def ascii_def)
  have c: "dict_get ?m (ascii ''content'') (JStr []) = JStr (ascii ''hello'')"
    by (simp add: dict_get_def)
  from single_completion_round[of demo_runtime "gateway_returning (response_with_message (JObj ?m))"
      demo_tools "[]" JNull "[]" "[]" empty_world "response_with_message (JObj ?m)" ?m]
    gw msg k c
  show ?thesis
    by (simp add: demo_round_def sent_messages_def empty_world_def)
qed

text \<open>
  C5, as claimed, fails on a response whose message is present but has neither a
  tool-call list nor content: the protocol reports success, with the empty string
  as the answer.
\<close>

theorem malformed_response_counterexample:
  "select_message (response_with_message (JObj [])) = Inr (Some (JObj []))
   \<and> demo_round (response_with_message (JObj []))
     = (\<lparr> success = True, error = None, tool_results = [], final_response = Some (JStr []) \<rparr>,
        \<lparr> completion_requests = [[]], tool_invocations = [] \<rparr>)"
  by (simp add: demo_round_def process_function_calling_def call_clova_function_calling_def
      handle_response_def Let_def
      sent_messages_def empty_world_def protocol_eval)

theorem malformed_response_failure_witness:
  "select_message (JObj []) = Inr None
   \<and> select_message (JObj [(ascii ''choices'', JArr [])]) = Inr None
   \<and> demo_round (JObj [(ascii ''choices'', JArr [])])
     = (\<lparr> success = False, error = Some (ascii ''Invalid API response''), tool_results = [],
          final_response = None \<rparr>,
        \<lparr> completion_requests = [[]], tool_invocations = [] \<rparr>)"
proof -
  let ?d = "[(ascii ''choices'', JArr [])]"
  have s0: "select_message (JObj []) = Inr None"
    using malformed_response_failure[of "[]", THEN conjunct1] by simp
  have h1: "case map_of ?d (ascii ''result'') of
              None \<Rightarrow> True | Some r \<Rightarrow> py_in (ascii ''message'') r = Inr False"
    by (simp add: ascii_def)
  have h2: "case map_of ?d (ascii ''choices'') of None \<Rightarrow> True | Some c \<Rightarrow> \<not> truthy c"
    by simp
  have gw: "gateway_returning (JObj ?d) (sent_messages [] []) JNull [] = Inr (JObj ?d)"
    by (simp add: gateway_returning_def)
  from malformed_response_failure[of ?d "gateway_returning (JObj ?d)" "[]" "[]" JNull "[]"
      "JObj ?d" demo_runtime demo_tools empty_world] h1 h2 gw s0
  show ?thesis
    by (simp add: demo_round_def sent_messages_def empty_world_def)
qed

section \<open>Properties of the quiz node\<close>

lemma phase_values_distinct:
  "ascii ''asking'' \<noteq> ascii ''inactive''"
  "ascii ''processing'' \<noteq> ascii ''inactive''"
  "ascii ''processing'' \<noteq> ascii ''asking''"
  by (simp_all add: ascii_inj)

lemma wrong_answer_turn:
  assumes active: "quiz_session_active s"
    and phase: "quiz_session_phase s = ascii ''asking''"
    and q: "quiz_current_question s = Some q"
    and chk: "make_checker E = None"
    and fresh: "\<not> is_session_expired now s"
    and nohint: "py_lower U (py_strip U (query s)) \<notin> set hint_phrases"
    and ok: "ar_success (check_answer E q (py_strip U (query s)))"
    and wrong: "\<not> ar_is_correct (check_answer E q (py_strip U (query s)))"
  shows "quiz_stock_data E U save now s db =
     ((s\<lparr>data :=
          QuizData
            (WrongAnswerWithHint
               (wrong_answer_message (py_strip U (query s)) (get_hint E q))
               (py_strip U (query s)) (get_hint E q))
            (ascii ''quiz_wrong_answer'')\<rparr>, db),
      [(ascii ''asking'', ascii ''processing''), (ascii ''processing'', ascii ''asking'')])"
proof -
  have unchanged: "s\<lparr>quiz_session_phase := ascii ''asking''\<rparr> = s"
    using phase by simp
  have "handle_wrong_answer E (update_session_phase s PROCESSING) q (py_strip U (query s)) =
      (s\<lparr>data :=
          QuizData
            (WrongAnswerWithHint
               (wrong_answer_message (py_strip U (query s)) (get_hint E q))
               (py_strip U (query s)) (get_hint E q))
            (ascii ''quiz_wrong_answer'')\<rparr>,
       [(ascii ''processing'', ascii ''asking'')])"
    using active chk unchanged
    by (simp add: handle_wrong_answer_def update_session_phase_logged_def
        update_session_phase_def is_session_active_def Let_def)
  then have "handle_user_answer E U save s (py_strip U (query s)) db =
     ((s\<lparr>data :=
          QuizData
            (WrongAnswerWithHint
               (wrong_answer_message (py_strip U (query s)) (get_hint E q))
               (py_strip U (query s)) (get_hint E q))
            (ascii ''quiz_wrong_answer'')\<rparr>, db),
      [(ascii ''asking'', ascii ''processing''), (ascii ''processing'', ascii ''asking'')])"
    using q chk nohint ok wrong active phase
    by (simp add: handle_user_answer_def update_session_phase_logged_def is_session_active_def
        Let_def)
  then show ?thesis
    using fresh phase
    by (simp add: quiz_stock_data_def cleanup_expired_session_def Let_def phase_values_distinct)
qed

lemma correct_answer_turn:
  assumes active: "quiz_session_active s"
    and phase: "quiz_session_phase s = ascii ''asking''"
    and q: "quiz_current_question s = Some q"
    and chk: "make_checker E = None"
    and fresh: "\<not> is_session_expired now s"
    and nohint: "py_lower U (py_strip U (query s)) \<notin> set hint_phrases"
    and ok: "ar_success (check_answer E q (py_strip U (query s)))"
    and right: "ar_is_correct (check_answer E q (py_strip U (query s)))"
    and a: "a = py_strip U (query s)"
    and package: "package = generate_answer_package E q a (check_answer E q a) (request_id s)"
  shows "quiz_stock_data E U (save_quiz_result NoFault now) now s db =
     ((s\<lparr> data :=
            QuizData (AnswerChecking (format_answer_result E package)) (ascii ''quiz_answer''),
          quiz_session_active := False,
          quiz_session_id := [],
          quiz_session_start_time := NoStartTime,
          quiz_current_question := None,
          quiz_hint_used := False,
          quiz_session_phase := ascii ''inactive'' \<rparr>,
       db @ [\<lparr> row_values =
                 \<lparr> h_request_id = request_id s,
                   h_quiz_id = quiz_id q,
                   h_quiz_question = question q,
                   h_correct_answer = company (correct q),
                   h_user_answer = a,
                   h_is_correct = True,
                   h_hint_used = quiz_hint_used s,
                   h_reward_stock =
                     (case pkg_reward_info package of
                        None \<Rightarrow> company (correct q)
                      | Some r \<Rightarrow>
                          (case pkg_stock_name r of
                             None \<Rightarrow> company (correct q) | Some n \<Rightarrow> n)),
                   h_reward_amount =
                     (case pkg_reward_info package of
                        None \<Rightarrow> 0
                      | Some r \<Rightarrow> (case pkg_amount r of None \<Rightarrow> 0 | Some n \<Rightarrow> n)) \<rparr>,
               completed_at = now, created_at = now \<rparr>]),
      [(ascii ''asking'', ascii ''processing''), (ascii ''processing'', ascii ''completed'')])"
proof -
  have "handle_correct_answer E (save_quiz_result NoFault now)
          (update_session_phase s PROCESSING) q a (check_answer E q a) db =
     ((s\<lparr> data :=
            QuizData (AnswerChecking (format_answer_result E package)) (ascii ''quiz_answer''),
          quiz_session_active := False,
          quiz_session_id := [],
          quiz_session_start_time := NoStartTime,
          quiz_current_question := None,
          quiz_hint_used := False,
          quiz_session_phase := ascii ''inactive'' \<rparr>,
       db @ [\<lparr> row_values =
                 \<lparr> h_request_id = request_id s,
                   h_quiz_id = quiz_id q,
                   h_quiz_question = question q,
                   h_correct_answer = company (correct q),
                   h_user_answer = a,
                   h_is_correct = True,
                   h_hint_used = quiz_hint_used s,
                   h_reward_stock =
                     (case pkg_reward_info package of
                        None \<Rightarrow> company (correct q)
                      | Some r \<Rightarrow>
                          (case pkg_stock_name r of
                             None \<Rightarrow> company (correct q) | Some n \<Rightarrow> n)),
                   h_reward_amount =
                     (case pkg_reward_info package of
                        None \<Rightarrow> 0
                      | Some r \<Rightarrow> (case pkg_amount r of None \<Rightarrow> 0 | Some n \<Rightarrow> n)) \<rparr>,
               completed_at = now, created_at = now \<rparr>]),
      [(ascii ''processing'', ascii ''completed'')])"
    using active q package
    by (simp add: handle_correct_answer_def Let_def end_session_def
        update_session_phase_logged_def update_session_phase_def is_session_active_def
        save_quiz_result_def reward_of_def key_or_def split: option.splits)
  then have "handle_user_answer E U (save_quiz_result NoFault now) s a db =
     ((s\<lparr> data :=
            QuizData (AnswerChecking (format_answer_result E package)) (ascii ''quiz_answer''),
          quiz_session_active := False,
          quiz_session_id := [],
          quiz_session_start_time := NoStartTime,
          quiz_current_question := None,
          quiz_hint_used := False,
          quiz_session_phase := ascii ''inactive'' \<rparr>,
       db @ [\<lparr> row_values =
                 \<lparr> h_request_id = request_id s,
                   h_quiz_id = quiz_id q,
                   h_quiz_question = question q,
                   h_correct_answer = company (correct q),
                   h_user_answer = a,
                   h_is_correct = True,
                   h_hint_used = quiz_hint_used s,
                   h_reward_stock =
                     (case pkg_reward_info package of
                        None \<Rightarrow> company (correct q)
                      | Some r \<Rightarrow>
                          (case pkg_stock_name r of
                             None \<Rightarrow> company (correct q) | Some n \<Rightarrow> n)),
                   h_reward_amount =
                     (case pkg_reward_info package of
                        None \<Rightarrow> 0
                      | Some r \<Rightarrow> (case pkg_amount r of None \<Rightarrow> 0 | Some n \<Rightarrow> n)) \<rparr>,
               completed_at = now, created_at = now \<rparr>]),
      [(ascii ''asking'', ascii ''processing''), (ascii ''processing'', ascii ''completed'')])"
    using q chk nohint ok right active phase
    by (simp add: handle_user_answer_def update_session_phase_logged_def is_session_active_def
        Let_def a)
  then show ?thesis
    using fresh phase
    by (simp add: quiz_stock_data_def cleanup_expired_session_def Let_def phase_values_distinct a)
qed

lemma expired_ignores_other_fields:
  "is_session_expired now
     (s\<lparr>data := d, query := r, response := p, context_map := c, query_category := g,
        api_key := k\<rparr>)
   = is_session_expired now s"
  by (simp add: is_session_expired_def is_session_active_def)

text \<open>
  C9, amended.  Let a quiz be active in phase \<open>asking\<close> with current question \<open>q\<close>,
  the answer checker available.  First turn, before the quiz has expired: the
  stripped query \<open>a1\<close> is no hint request and the checker finds it incorrect.  Then
  the node returns the same state, still active, in phase \<open>asking\<close> and with the
  same question; its payload is the wrong-answer message, which announces the wrong
  answer, repeats \<open>a1\<close> and gives the hint of the checker; the phase went to
  \<open>processing\<close> and back to \<open>asking\<close>; nothing is written to the history, whatever
  the storage does.  Second turn, before the quiz has expired, on that state with a
  new query (and whatever the nodes between the two turns left in the response, the
  context, the category and the key): the stripped query \<open>a2\<close> is found correct.
  Then the phase goes from \<open>asking\<close> to \<open>processing\<close> and on to \<open>completed\<close>; the
  returned state is torn down (inactive, phase \<open>inactive\<close>, no question, no
  identifier, no start time) and carries the answer payload; and, the storage
  working, the history has grown by exactly one row, the row of this answer.
\<close>

theorem quiz_correctness_loop:
  assumes active: "quiz_session_active s"
    and phase: "quiz_session_phase s = ascii ''asking''"
    and q: "quiz_current_question s = Some q"
    and chk: "make_checker E = None"
    and fresh1: "\<not> is_session_expired now1 s"
    and a1: "a1 = py_strip U (query s)"
    and nohint1: "py_lower U a1 \<notin> set hint_phrases"
    and ok1: "ar_success (check_answer E q a1)"
    and wrong1: "\<not> ar_is_correct (check_answer E q a1)"
    and turn1: "((s1, db1), lines1) = quiz_stock_data E U (save_quiz_result fault now1) now1 s db"
    and between: "s1' = s1\<lparr>query := raw2, response := resp2, context_map := ctx2,
                            query_category := cat2, api_key := key2\<rparr>"
    and fresh2: "\<not> is_session_expired now2 s"
    and a2: "a2 = py_strip U raw2"
    and nohint2: "py_lower U a2 \<notin> set hint_phrases"
    and ok2: "ar_success (check_answer E q a2)"
    and right2: "ar_is_correct (check_answer E q a2)"
    and package: "package = generate_answer_package E q a2 (check_answer E q a2) (request_id s)"
    and turn2: "((s2, db2), lines2) =
        quiz_stock_data E U (save_quiz_result NoFault now2) now2 s1' db1"
  shows "quiz_session_active s1
     \<and> quiz_session_phase s1 = ascii ''asking''
     \<and> quiz_current_question s1 = Some q
     \<and> s1 = s\<lparr>data :=
           QuizData
             (WrongAnswerWithHint
                ([42, 42, 50724, 45813, 51077, 45768, 45796, 33, 42, 42, 10, 10, 51077, 47141,
                  54616, 49888, 32, 45813, 48320, 58, 32]
                 @ a1
                 @ [10, 51221, 45813, 51008, 32, 45796, 47480, 32, 49440, 53469, 51648, 51077,
                    45768, 45796, 46, 10, 10, 128161, 32, 42, 42, 55180, 53944, 42, 42, 58, 32]
                 @ get_hint E q
                 @ [10, 10, 45796, 49884, 32, 45813, 48320, 54644, 48372, 49464, 50836, 33])
                a1 (get_hint E q))
             (ascii ''quiz_wrong_answer'')\<rparr>
     \<and> db1 = db
     \<and> lines1 = [(ascii ''asking'', ascii ''processing''), (ascii ''processing'', ascii ''asking'')]
     \<and> lines2 = [(ascii ''asking'', ascii ''processing''),
                 (ascii ''processing'', ascii ''completed'')]
     \<and> s2 = s1'\<lparr> data :=
                   QuizData (AnswerChecking (format_answer_result E package))
                     (ascii ''quiz_answer''),
                 quiz_session_active := False,
                 quiz_session_id := [],
                 quiz_session_start_time := NoStartTime,
                 quiz_current_question := None,
                 quiz_hint_used := False,
                 quiz_session_phase := ascii ''inactive'' \<rparr>
     \<and> db2 = db @ [\<lparr> row_values =
                        \<lparr> h_request_id = request_id s,
                          h_quiz_id = quiz_id q,
                          h_quiz_question = question q,
                          h_correct_answer = company (correct q),
                          h_user_answer = a2,
                          h_is_correct = True,
                          h_hint_used = quiz_hint_used s,
                          h_reward_stock =
                            (case pkg_reward_info package of
                               None \<Rightarrow> company (correct q)
                             | Some r \<Rightarrow>
                                 (case pkg_stock_name r of
                                    None \<Rightarrow> company (correct q) | Some n \<Rightarrow> n)),
                          h_reward_amount =
                            (case pkg_reward_info package of
                               None \<Rightarrow> 0
                             | Some r \<Rightarrow> (case pkg_amount r of None \<Rightarrow> 0 | Some n \<Rightarrow> n)) \<rparr>,
                      completed_at = now2, created_at = now2 \<rparr>]"
proof -
  let ?d = "QuizData (WrongAnswerWithHint (wrong_answer_message a1 (get_hint E q)) a1 (get_hint E q))
           (ascii ''quiz_wrong_answer'')"
  have t1: "((s1, db1), lines1) =
      ((s\<lparr>data := ?d\<rparr>, db),
       [(ascii ''asking'', ascii ''processing''), (ascii ''processing'', ascii ''asking'')])"
    unfolding turn1 a1
    using wrong_answer_turn[OF active phase q chk fresh1 nohint1[unfolded a1] ok1[unfolded a1]
        wrong1[unfolded a1]] .
  then have s1: "s1 = s\<lparr>data := ?d\<rparr>" and db1: "db1 = db"
    and l1: "lines1 = [(ascii ''asking'', ascii ''processing''),
                       (ascii ''processing'', ascii ''asking'')]"
    by simp_all
  have q2: "query s1' = raw2" using between by simp
  have active2: "quiz_session_active s1'" using active s1 between by simp
  have phase2: "quiz_session_phase s1' = ascii ''asking''" using phase s1 between by simp
  have quiz2: "quiz_current_question s1' = Some q" using q s1 between by simp
  have fresh2': "\<not> is_session_expired now2 s1'"
    using fresh2 unfolding between s1 by (simp add: expired_ignores_other_fields)
  have req: "request_id s1' = request_id s" and hint: "quiz_hint_used s1' = quiz_hint_used s"
    using s1 between by simp_all
  have a2': "a2 = py_strip U (query s1')" using a2 q2 by simp
  have package': "package =
      generate_answer_package E q a2 (check_answer E q a2) (request_id s1')"
    using package req by simp
  note t2 = correct_answer_turn[OF active2 phase2 quiz2 chk fresh2' nohint2[unfolded a2']
      ok2[unfolded a2'] right2[unfolded a2'] a2' package', of db1]
  from turn2 t2 have r2: "s2 = s1'\<lparr> data :=
                   QuizData (AnswerChecking (format_answer_result E package))
                     (ascii ''quiz_answer''),
                 quiz_session_active := False,
                 quiz_session_id := [],
                 quiz_session_start_time := NoStartTime,
                 quiz_current_question := None,
                 quiz_hint_used := False,
                 quiz_session_phase := ascii ''inactive'' \<rparr>"
    and d2: "db2 = db1 @ [\<lparr> row_values =
                        \<lparr> h_request_id = request_id s1',
                          h_quiz_id = quiz_id q,
                          h_quiz_question = question q,
                          h_correct_answer = company (correct q),
                          h_user_answer = a2,
                          h_is_correct = True,
                          h_hint_used = quiz_hint_used s1',
                          h_reward_stock =
                            (case pkg_reward_info package of
                               None \<Rightarrow> company (correct q)
                             | Some r \<Rightarrow>
                                 (case pkg_stock_name r of
                                    None \<Rightarrow> company (correct q) | Some n \<Rightarrow> n)),
                          h_reward_amount =
                            (case pkg_reward_info package of
                               None \<Rightarrow> 0
                             | Some r \<Rightarrow> (case pkg_amount r of None \<Rightarrow> 0 | Some n \<Rightarrow> n)) \<rparr>,
                      completed_at = now2, created_at = now2 \<rparr>]"
    and l2: "lines2 = [(ascii ''asking'', ascii ''processing''),
                       (ascii ''processing'', ascii ''completed'')]"
    by simp_all
  have msg: "s1 = s\<lparr>data :=
           QuizData
             (WrongAnswerWithHint
                ([42, 42, 50724, 45813, 51077, 45768, 45796, 33, 42, 42, 10, 10, 51077, 47141,
                  54616, 49888, 32, 45813, 48320, 58, 32]
                 @ a1
                 @ [10, 51221, 45813, 51008, 32, 45796, 47480, 32, 49440, 53469, 51648, 51077,
                    45768, 45796, 46, 10, 10, 128161, 32, 42, 42, 55180, 53944, 42, 42, 58, 32]
                 @ get_hint E q
                 @ [10, 10, 45796, 49884, 32, 45813, 48320, 54644, 48372, 49464, 50836, 33])
                a1 (get_hint E q))
             (ascii ''quiz_wrong_answer'')\<rparr>"
    unfolding s1 wrong_answer_message_def by simp
  have keep: "quiz_session_active s1" "quiz_session_phase s1 = ascii ''asking''"
    "quiz_current_question s1 = Some q"
    using s1 active phase q by simp_all
  from keep msg db1 l1 l2 r2 d2[unfolded req hint db1] show ?thesis
    by (intro conjI)
qed

text \<open>
  C9, as claimed, fails on a quiz that has expired.  The session of \<open>asking_state\<close>
  was started at 0 s and is active in phase \<open>asking\<close> with the question
  \<open>quiz_demo\<close>.  The incorrect answer \<open>1\<close> arrives at 660 s: the node ends the
  expired session and starts a new one, so the returned state carries another
  question and the start message of that question, not a wrong-answer message.
\<close>

theorem quiz_correctness_loop_counterexample:
  "quiz_session_active asking_state
   \<and> quiz_session_phase asking_state = ascii ''asking''
   \<and> quiz_current_question asking_state = Some quiz_demo
   \<and> py_strip ascii_only (query asking_state) = ascii ''1''
   \<and> \<not> ar_is_correct (check_answer next_quiz_env quiz_demo (ascii ''1''))
   \<and> is_session_expired (seconds 660) asking_state
   \<and> quiz_stock_data next_quiz_env ascii_only (save_quiz_result NoFault (seconds 660))
        (seconds 660) asking_state []
       = ((restarted_state, []), [])
   \<and> quiz_current_question restarted_state = Some quiz_demo_next
   \<and> quiz_demo_next \<noteq> quiz_demo
   \<and> data restarted_state
       = QuizData (QuizGeneration (question quiz_demo_next) quiz_demo_next) (ascii ''quiz_start'')"
proof -
  have e: "is_session_expired (seconds 660) asking_state"
    by (simp add: is_session_expired_def is_session_active_def asking_state_def seconds_def
        timedelta_minutes_def SESSION_TIMEOUT_MINUTES_def)
  have c: "cleanup_expired_session (save_quiz_result NoFault (seconds 660)) (seconds 660)
             asking_state []
           = (asking_state\<lparr> quiz_session_active := False, quiz_session_id := [],
                quiz_session_start_time := NoStartTime, quiz_current_question := None,
                quiz_hint_used := False, quiz_session_phase := ascii ''inactive'' \<rparr>, [])"
    using e
    by (simp add: cleanup_expired_session_def end_session_default_def end_session_def Let_def
        asking_state_def)
  have r: "quiz_stock_data next_quiz_env ascii_only (save_quiz_result NoFault (seconds 660))
        (seconds 660) asking_state []
       = ((restarted_state, []), [])"
    unfolding quiz_stock_data_def c
    by (simp add: Let_def handle_quiz_start_def start_new_session_def next_quiz_env_def
        quiz_demo_env_def restarted_state_def asking_state_def default_stock_agent_state_def
        quiz_demo_next_def)
  have d: "quiz_demo_next \<noteq> quiz_demo"
    by (simp add: quiz_demo_next_def quiz_demo_def)
  have s: "py_strip ascii_only (query asking_state) = ascii ''1''"
    by (simp add: asking_state_def py_strip_def py_isspace_def ascii_def)
  have w: "\<not> ar_is_correct (check_answer next_quiz_env quiz_demo (ascii ''1''))"
    by (simp add: next_quiz_env_def quiz_demo_env_def quiz_demo_def ascii_def)
  from e r d s w show ?thesis
    by (simp add: asking_state_def restarted_state_def)
qed

lemma strip_demo:
  "py_strip ascii_only (ascii '' 1 '') = ascii ''1''"
  "py_strip ascii_only (ascii ''2'') = ascii ''2''"
  by (simp_all add: py_strip_def py_isspace_def ascii_def)

lemma lower_demo:
  "py_lower ascii_only (ascii ''1'') \<notin> set hint_phrases"
  "py_lower ascii_only (ascii ''2'') \<notin> set hint_phrases"
  by (simp_all add: py_lower_def lower_char_def ascii_def hint_phrases_def)

text \<open>
  The session of \<open>asking_state\<close>, started at 0 s: the answer \<open>1\<close> at 60 s is wrong,
  the answer \<open>2\<close> at 120 s is correct.
\<close>

theorem quiz_correctness_loop_witness:
  "quiz_stock_data quiz_demo_env ascii_only (save_quiz_result NoFault (seconds 60)) (seconds 60)
       asking_state []
     = ((after_wrong_answer, []),
        [(ascii ''asking'', ascii ''processing''), (ascii ''processing'', ascii ''asking'')])
   \<and> quiz_session_active after_wrong_answer
   \<and> quiz_session_phase after_wrong_answer = ascii ''asking''
   \<and> quiz_current_question after_wrong_answer = Some quiz_demo
   \<and> quiz_stock_data quiz_demo_env ascii_only (save_quiz_result NoFault (seconds 120))
        (seconds 120) second_answer_state []
     = ((after_correct_answer, [demo_history_row]),
        [(ascii ''asking'', ascii ''processing''), (ascii ''processing'', ascii ''completed'')])
   \<and> \<not> quiz_session_active after_correct_answer
   \<and> quiz_session_phase after_correct_answer = ascii ''inactive''
   \<and> quiz_current_question after_correct_answer = None"
proof -
  let ?t1 = "quiz_stock_data quiz_demo_env ascii_only (save_quiz_result NoFault (seconds 60))
      (seconds 60) asking_state []"
  let ?s1 = "fst (fst ?t1)"
  let ?s1' = "?s1\<lparr>query := ascii ''2'', response := ascii ''Wrong answer.'',
      context_map := [], query_category := ascii ''quiz_stock_data'', api_key := []\<rparr>"
  let ?t2 = "quiz_stock_data quiz_demo_env ascii_only (save_quiz_result NoFault (seconds 120))
      (seconds 120) ?s1' (snd (fst ?t1))"
  let ?p = "generate_answer_package quiz_demo_env quiz_demo (ascii ''2'')
      (check_answer quiz_demo_env quiz_demo (ascii ''2'')) (request_id asking_state)"
  have active: "quiz_session_active asking_state"
    and phase: "quiz_session_phase asking_state = ascii ''asking''"
    and q: "quiz_current_question asking_state = Some quiz_demo"
    and qu: "query asking_state = ascii '' 1 ''"
    by (simp_all add: asking_state_def)
  have chk: "make_checker quiz_demo_env = None"
    by (simp add: quiz_demo_env_def)
  have fresh1: "\<not> is_session_expired (seconds 60) asking_state"
    and fresh2: "\<not> is_session_expired (seconds 120) asking_state"
    by (simp_all add: is_session_expired_def is_session_active_def asking_state_def seconds_def
        timedelta_minutes_def SESSION_TIMEOUT_MINUTES_def)
  have a1: "ascii ''1'' = py_strip ascii_only (query asking_state)"
    by (simp add: qu strip_demo)
  have a2: "ascii ''2'' = py_strip ascii_only (ascii ''2'')"
    by (simp add: strip_demo)
  have ok1: "ar_success (check_answer quiz_demo_env quiz_demo (ascii ''1''))"
    and wrong1: "\<not> ar_is_correct (check_answer quiz_demo_env quiz_demo (ascii ''1''))"
    and ok2: "ar_success (check_answer quiz_demo_env quiz_demo (ascii ''2''))"
    and right2: "ar_is_correct (check_answer quiz_demo_env quiz_demo (ascii ''2''))"
    by (simp_all add: quiz_demo_env_def quiz_demo_def ascii_def)
  have hint: "get_hint quiz_demo_env quiz_demo = ascii ''listed in 2022''"
    by (simp add: quiz_demo_env_def)
  have turn1: "((?s1, snd (fst ?t1)), snd ?t1) = ?t1" by simp
  have turn2: "((fst (fst ?t2), snd (fst ?t2)), snd ?t2) = ?t2" by simp
  note loop = quiz_correctness_loop[OF active phase q chk fresh1 a1 lower_demo(1) ok1 wrong1
      turn1 refl fresh2 a2 lower_demo(2) ok2 right2 refl turn2]
  from loop have l1: "?s1 = asking_state\<lparr>data :=
           QuizData
             (WrongAnswerWithHint
                ([42, 42, 50724, 45813, 51077, 45768, 45796, 33, 42, 42, 10, 10, 51077, 47141,
                  54616, 49888, 32, 45813, 48320, 58, 32]
                 @ ascii ''1''
                 @ [10, 51221, 45813, 51008, 32, 45796, 47480, 32, 49440, 53469, 51648, 51077,
                    45768, 45796, 46, 10, 10, 128161, 32, 42, 42, 55180, 53944, 42, 42, 58, 32]
                 @ get_hint quiz_demo_env quiz_demo
                 @ [10, 10, 45796, 49884, 32, 45813, 48320, 54644, 48372, 49464, 50836, 33])
                (ascii ''1'') (get_hint quiz_demo_env quiz_demo))
             (ascii ''quiz_wrong_answer'')\<rparr>"
    and db1: "snd (fst ?t1) = []"
    and n1: "snd ?t1 = [(ascii ''asking'', ascii ''processing''),
                        (ascii ''processing'', ascii ''asking'')]"
    and n2: "snd ?t2 = [(ascii ''asking'', ascii ''processing''),
                        (ascii ''processing'', ascii ''completed'')]"
    and l2: "fst (fst ?t2) = ?s1'\<lparr> data :=
                   QuizData (AnswerChecking (format_answer_result quiz_demo_env ?p))
                     (ascii ''quiz_answer''),
                 quiz_session_active := False,
                 quiz_session_id := [],
                 quiz_session_start_time := NoStartTime,
                 quiz_current_question := None,
                 quiz_hint_used := False,
                 quiz_session_phase := ascii ''inactive'' \<rparr>"
    and d2: "snd (fst ?t2) = [] @ [\<lparr> row_values =
                        \<lparr> h_request_id = request_id asking_state,
                          h_quiz_id = quiz_id quiz_demo,
                          h_quiz_question = question quiz_demo,
                          h_correct_answer = company (correct quiz_demo),
                          h_user_answer = ascii ''2'',
                          h_is_correct = True,
                          h_hint_used = quiz_hint_used asking_state,
                          h_reward_stock =
                            (case pkg_reward_info ?p of
                               None \<Rightarrow> company (correct quiz_demo)
                             | Some r \<Rightarrow>
                                 (case pkg_stock_name r of
                                    None \<Rightarrow> company (correct quiz_demo) | Some n \<Rightarrow> n)),
                          h_reward_amount =
                            (case pkg_reward_info ?p of
                               None \<Rightarrow> 0
                             | Some r \<Rightarrow> (case pkg_amount r of None \<Rightarrow> 0 | Some n \<Rightarrow> n)) \<rparr>,
                      completed_at = seconds 120, created_at = seconds 120 \<rparr>]"
    by blast+
  have s1: "?s1 = after_wrong_answer"
    using l1 by (simp add: after_wrong_answer_def hint)
  have s1': "?s1' = second_answer_state"
    unfolding s1 by (simp add: second_answer_state_def)
  have t1: "?t1 = ((after_wrong_answer, []),
        [(ascii ''asking'', ascii ''processing''), (ascii ''processing'', ascii ''asking'')])"
    using s1 db1 n1 by (simp add: prod_eq_iff)
  have s2: "fst (fst ?t2) = after_correct_answer"
    using l2 unfolding s1'
    by (simp add: after_correct_answer_def quiz_demo_env_def)
  have r2: "snd (fst ?t2) = [demo_history_row]"
    using d2
    by (simp add: demo_history_row_def quiz_demo_env_def quiz_demo_def asking_state_def
        default_stock_agent_state_def)
  have t2: "quiz_stock_data quiz_demo_env ascii_only (save_quiz_result NoFault (seconds 120))
        (seconds 120) second_answer_state []
     = ((after_correct_answer, [demo_history_row]),
        [(ascii ''asking'', ascii ''processing''), (ascii ''processing'', ascii ''completed'')])"
    using s2 r2 n2 unfolding s1' db1 by (simp add: prod_eq_iff)
  have w: "quiz_session_active after_wrong_answer"
    "quiz_session_phase after_wrong_answer = ascii ''asking''"
    "quiz_current_question after_wrong_answer = Some quiz_demo"
    using active phase q by (simp_all add: after_wrong_answer_def)
  have f: "\<not> quiz_session_active after_correct_answer"
    "quiz_session_phase after_correct_answer = ascii ''inactive''"
    "quiz_current_question after_correct_answer = None"
    by (simp_all add: after_correct_answer_def)
  from t1 w t2 f show ?thesis by (intro conjI)
qed

end
